theory Spec2Isabelle
  imports Complex_Main
begin

section \<open>Python values used by openyieldtables\<close>

text \<open>
  The two data files are read with \<^verbatim>\<open>csv.DictReader\<close>; every cell is a piece of text.
  A row that is shorter than the header gets \<^verbatim>\<open>None\<close> for the columns it lacks, so a
  cell is a \<open>string option\<close>.  Only the first column (\<^verbatim>\<open>id\<close>) is always text.

  Python floats are idealised as reals: no rounding, no overflow.  The cell spellings of
  the non-finite floats (\<^verbatim>\<open>inf\<close>, \<^verbatim>\<open>nan\<close>) and non-ASCII digits are outside the
  model and do not parse here.
\<close>

text \<open>
  The exceptions the code can raise.  The first two are the \<^verbatim>\<open>ValueError\<close>s the module
  raises itself:
  \<^verbatim>\<open>ValueError(f"Yield table with ID {id} not found.")\<close> and
  \<^verbatim>\<open>ValueError(f"Yield class {yield_class} not found in yield table {id}.")\<close>.
  \<open>InvalidLiteral s\<close> is the \<^verbatim>\<open>ValueError\<close> of \<^verbatim>\<open>int(s)\<close> or \<^verbatim>\<open>float(s)\<close> on text
  that is no number, \<open>NoneArgument\<close> the \<^verbatim>\<open>TypeError\<close> of \<^verbatim>\<open>int(None)\<close> or
  \<^verbatim>\<open>float(None)\<close>, and \<open>CannotCast\<close> the \<^verbatim>\<open>TypeError\<close> of numpy on sample values
  that are not all numbers.  \<open>ValidationError\<close> is the exception of the constructor of
  \<^verbatim>\<open>YieldTableMeta\<close> on a row it does not accept; pydantic's \<^verbatim>\<open>ValidationError\<close> is a
  \<^verbatim>\<open>ValueError\<close>.
\<close>

datatype error =
    TableNotFound int
  | ClassNotFound int int
  | InvalidLiteral string
  | NoneArgument
  | CannotCast
  | ValidationError

datatype exc_class = ValueError | TypeError

fun exc_class_of :: "error \<Rightarrow> exc_class" where
  "exc_class_of (TableNotFound i) = ValueError"
| "exc_class_of (ClassNotFound c i) = ValueError"
| "exc_class_of (InvalidLiteral s) = ValueError"
| "exc_class_of NoneArgument = TypeError"
| "exc_class_of CannotCast = TypeError"
| "exc_class_of ValidationError = ValueError"

subsection \<open>\<^verbatim>\<open>int(str)\<close> and \<^verbatim>\<open>float(str)\<close>\<close>

definition is_space :: "char \<Rightarrow> bool" where
  "is_space c \<longleftrightarrow> c \<in> set [CHR 0x09, CHR 0x0A, CHR 0x0B, CHR 0x0C, CHR 0x0D, CHR 0x20]"

definition strip :: "string \<Rightarrow> string" where
  "strip s = rev (dropWhile is_space (rev (dropWhile is_space s)))"

definition is_digit :: "char \<Rightarrow> bool" where
  "is_digit c \<longleftrightarrow> c \<in> set ''0123456789''"

definition digit_val :: "char \<Rightarrow> nat" where
  "digit_val c = of_char c - 48"

text \<open>A digit part is \<^verbatim>\<open>digit (["_"] digit)*\<close>; \<open>py_digits\<close> reads what follows a digit.\<close>

fun py_digits :: "nat \<Rightarrow> string \<Rightarrow> nat option" where
  "py_digits acc [] = Some acc"
| "py_digits acc (c # cs) =
     (if is_digit c then py_digits (10 * acc + digit_val c) cs
      else if c = CHR ''_'' then
        (case cs of [] \<Rightarrow> None
         | d # ds \<Rightarrow> if is_digit d then py_digits acc cs else None)
      else None)"

definition py_nat :: "string \<Rightarrow> nat option" where
  "py_nat s = (case s of [] \<Rightarrow> None
     | c # cs \<Rightarrow> if is_digit c then py_digits (digit_val c) cs else None)"

definition py_signed :: "string \<Rightarrow> int option" where
  "py_signed s = (case s of
       [] \<Rightarrow> None
     | c # cs \<Rightarrow>
         if c = CHR ''+'' then map_option int (py_nat cs)
         else if c = CHR ''-'' then map_option (\<lambda>n. - int n) (py_nat cs)
         else map_option int (py_nat s))"

definition py_int :: "string \<Rightarrow> int option" where
  "py_int s = py_signed (strip s)"

definition is_digit_or_us :: "char \<Rightarrow> bool" where
  "is_digit_or_us c \<longleftrightarrow> is_digit c \<or> c = CHR ''_''"

definition digitpart :: "string \<Rightarrow> string \<times> string" where
  "digitpart s = (takeWhile is_digit_or_us s, dropWhile is_digit_or_us s)"

definition scale10 :: "real \<Rightarrow> int \<Rightarrow> real" where
  "scale10 m e = (if 0 \<le> e then m * 10 ^ nat e else m / 10 ^ nat (- e))"

text \<open>
  \<^verbatim>\<open>number ::= [digitpart] "." digitpart | digitpart ["."]\<close>, then an optional
  \<^verbatim>\<open>("e" | "E") [sign] digitpart\<close>.
\<close>

definition py_float_abs :: "string \<Rightarrow> real option" where
  "py_float_abs s =
     (let (ip, r1) = digitpart s;
          (fp, r2) = (case r1 of [] \<Rightarrow> ([], r1)
                      | c # r \<Rightarrow> if c = CHR ''.'' then digitpart r else ([], r1));
          ex = (case r2 of [] \<Rightarrow> Some 0
                | c # r \<Rightarrow> if c = CHR ''e'' \<or> c = CHR ''E'' then py_signed r else None)
      in if ip = [] \<and> fp = [] then None
         else if ip \<noteq> [] \<and> py_nat ip = None then None
         else if fp \<noteq> [] \<and> py_nat fp = None then None
         else (case ex of None \<Rightarrow> None
               | Some e \<Rightarrow>
                   let iv = (case py_nat ip of None \<Rightarrow> 0 | Some n \<Rightarrow> real n);
                       fv = (case py_nat fp of None \<Rightarrow> 0 | Some n \<Rightarrow> real n);
                       nf = length (filter is_digit fp)
                   in Some (scale10 (iv + fv / 10 ^ nf) e)))"

definition py_float :: "string \<Rightarrow> real option" where
  "py_float s = (let t = strip s in case t of
       [] \<Rightarrow> None
     | c # cs \<Rightarrow>
         if c = CHR ''+'' then py_float_abs cs
         else if c = CHR ''-'' then map_option uminus (py_float_abs cs)
         else py_float_abs t)"

text \<open>\<^verbatim>\<open>int(x)\<close> and \<^verbatim>\<open>float(x)\<close> on a cell, with the exception as a value.\<close>

definition int_cell :: "string option \<Rightarrow> error + int" where
  "int_cell c = (case c of None \<Rightarrow> Inl NoneArgument
     | Some s \<Rightarrow> (case py_int s of None \<Rightarrow> Inl (InvalidLiteral s) | Some n \<Rightarrow> Inr n))"

definition float_cell :: "string option \<Rightarrow> error + real" where
  "float_cell c = (case c of None \<Rightarrow> Inl NoneArgument
     | Some s \<Rightarrow> (case py_float s of None \<Rightarrow> Inl (InvalidLiteral s) | Some x \<Rightarrow> Inr x))"

text \<open>Truthiness of a cell: \<^verbatim>\<open>None\<close> and the empty string are false.\<close>

definition truthy :: "string option \<Rightarrow> bool" where
  "truthy c = (case c of None \<Rightarrow> False | Some s \<Rightarrow> s \<noteq> [])"

text \<open>\<^verbatim>\<open>int(x)\<close> on a float truncates towards zero.\<close>

definition int_of_float :: "real \<Rightarrow> int" where
  "int_of_float x = (if 0 \<le> x then \<lfloor>x\<rfloor> else \<lceil>x\<rceil>)"

text \<open>\<^verbatim>\<open>s.split(",")\<close>.\<close>

fun split_comma :: "string \<Rightarrow> string list" where
  "split_comma [] = [[]]"
| "split_comma (c # cs) =
     (if c = CHR '','' then [] # split_comma cs
      else (case split_comma cs of [] \<Rightarrow> [[c]] | w # ws \<Rightarrow> (c # w) # ws))"

section \<open>The data model\<close>

text \<open>
  One dictionary of \<^verbatim>\<open>csv.DictReader\<close> over \<^verbatim>\<open>data/yield_tables_meta.csv\<close> and one over
  \<^verbatim>\<open>data/yield_tables.csv\<close>.  The files are parameters of every operation: after the
  parameter \<open>accepts\<close> come the list of rows of the metadata file and that of the data
  file.
\<close>

record meta_csv_row =
  mcol_id :: string
  mcol_title :: "string option"
  mcol_country_codes :: "string option"
  mcol_type :: "string option"
  mcol_source :: "string option"
  mcol_link :: "string option"
  mcol_yield_class_step :: "string option"
  mcol_age_step :: "string option"
  mcol_tree_type :: "string option"

record data_csv_row =
  col_id :: string
  col_yield_class :: "string option"
  col_age :: "string option"
  col_dominant_height :: "string option"
  col_average_height :: "string option"
  col_dbh :: "string option"
  col_taper :: "string option"
  col_trees_per_ha :: "string option"
  col_basal_area :: "string option"
  col_volume_per_ha :: "string option"
  col_average_annual_age_increment :: "string option"
  col_total_growth_performance :: "string option"
  col_current_annual_increment :: "string option"
  col_mean_annual_increment :: "string option"

text \<open>
  Modelled from the spec: the classes \<^verbatim>\<open>YieldTableMeta\<close>, \<^verbatim>\<open>YieldClassRow\<close>,
  \<^verbatim>\<open>YieldClass\<close>, \<^verbatim>\<open>YieldTableData\<close> and \<^verbatim>\<open>YieldTable\<close> of the package's
  \<^verbatim>\<open>models\<close> module, which is not among the sources.  The fields are those the
  constructor calls of \<^verbatim>\<open>yieldtables.py\<close> pass, and a field holds what the call passes.
  Which rows the constructor of \<^verbatim>\<open>YieldTableMeta\<close> accepts is not in the sources either:
  it is the parameter \<open>accepts\<close> of every operation below.
\<close>

record YieldTableMeta =
  meta_id :: int
  title :: "string option"
  country_codes :: "string list"
  type :: "string option"
  source :: "string option"
  link :: "string option"
  yield_class_step :: "real option"
  age_step :: "int option"
  tree_type :: "string option"
  available_columns :: "string list"

record YieldClassRow =
  age :: int
  dominant_height :: "real option"
  average_height :: "real option"
  dbh :: "real option"
  taper :: "real option"
  trees_per_ha :: "real option"
  basal_area :: "real option"
  volume_per_ha :: "real option"
  average_annual_age_increment :: "real option"
  total_growth_performance :: "real option"
  current_annual_increment :: "real option"
  mean_annual_increment :: "real option"

text \<open>
  A yield-class key is \<^verbatim>\<open>Union[int, float]\<close>.  Python compares and hashes the two
  numerically (\<^verbatim>\<open>1 == 1.0\<close>), which \<open>key_eq\<close> follows.
\<close>

datatype ykey = IntKey int | FloatKey real

fun key_val :: "ykey \<Rightarrow> real" where
  "key_val (IntKey n) = of_int n"
| "key_val (FloatKey x) = x"

definition key_eq :: "ykey \<Rightarrow> ykey \<Rightarrow> bool" where
  "key_eq a b \<longleftrightarrow> key_val a = key_val b"

record YieldClass =
  yield_class :: ykey
  rows :: "YieldClassRow list"

record YieldTableData =
  yield_classes :: "YieldClass list"

record YieldTable = YieldTableMeta +
  data :: YieldTableData

section \<open>The helpers of the \<^verbatim>\<open>utils\<close> module\<close>

text \<open>
  Modelled from the spec: \<^verbatim>\<open>parse_float\<close> of the package's \<^verbatim>\<open>utils\<close> module, which is
  not among the sources.  A measurement cell is "parsed as an optional floating-point
  value, where an empty, missing, or non-numeric cell yields absent rather than raising".
\<close>

definition parse_float :: "string option \<Rightarrow> real option" where
  "parse_float c = (case c of None \<Rightarrow> None | Some s \<Rightarrow> py_float s)"

text \<open>The columns of the data file, in the order the header declares them.\<close>

definition structural_columns :: "string list" where
  "structural_columns = [''id'', ''yield_class'', ''age'']"

definition measurement_columns :: "(string \<times> (data_csv_row \<Rightarrow> string option)) list" where
  "measurement_columns =
    [(''dominant_height'', col_dominant_height),
     (''average_height'', col_average_height),
     (''dbh'', col_dbh),
     (''taper'', col_taper),
     (''trees_per_ha'', col_trees_per_ha),
     (''basal_area'', col_basal_area),
     (''volume_per_ha'', col_volume_per_ha),
     (''average_annual_age_increment'', col_average_annual_age_increment),
     (''total_growth_performance'', col_total_growth_performance),
     (''current_annual_increment'', col_current_annual_increment),
     (''mean_annual_increment'', col_mean_annual_increment)]"

definition data_columns :: "(string \<times> (data_csv_row \<Rightarrow> string option)) list" where
  "data_columns =
    [(''id'', \<lambda>r. Some (col_id r)),
     (''yield_class'', col_yield_class),
     (''age'', col_age)] @ measurement_columns"

text \<open>
  Modelled from the spec: \<^verbatim>\<open>find_available_columns\<close> of the package's \<^verbatim>\<open>utils\<close> module,
  which is not among the sources.  It "scans the tabular source for rows whose key column
  equals key_value, and returns the list of column names (in source-declared order) for
  which at least one matching row has a non-empty value, always prefixed by the
  structural columns".
\<close>

definition find_available_columns :: "data_csv_row list \<Rightarrow> string \<Rightarrow> int \<Rightarrow> string list" where
  "find_available_columns src key_column key_value =
     (let matching = filter (\<lambda>r. case map_of data_columns key_column of
                                     None \<Rightarrow> False
                                   | Some sel \<Rightarrow> (case sel r of None \<Rightarrow> False
                                                  | Some s \<Rightarrow> py_int s = Some key_value)) src
      in structural_columns @
         map fst (filter (\<lambda>(name, sel). list_ex (\<lambda>r. truthy (sel r)) matching)
                    measurement_columns))"

section \<open>The metadata catalogue\<close>

text \<open>
  The dictionary literal of \<^verbatim>\<open>get_yield_tables_meta\<close> is evaluated entry by entry, so the
  first conversion that raises decides the exception: \<^verbatim>\<open>int(row.get("id", 0))\<close>, then
  \<^verbatim>\<open>float(row["yield_class_step"])\<close> when that cell is truthy, then
  \<^verbatim>\<open>int(row["age_step"])\<close> when that cell is truthy.
\<close>

definition csv_row_of :: "data_csv_row list \<Rightarrow> meta_csv_row \<Rightarrow> error + YieldTableMeta" where
  "csv_row_of src row =
     (case int_cell (Some (mcol_id row)) of Inl e \<Rightarrow> Inl e | Inr i \<Rightarrow>
      (case (if truthy (mcol_yield_class_step row)
             then map_sum (\<lambda>e. e) Some (float_cell (mcol_yield_class_step row))
             else Inr None) of Inl e \<Rightarrow> Inl e | Inr ycs \<Rightarrow>
       (case (if truthy (mcol_age_step row)
              then map_sum (\<lambda>e. e) Some (int_cell (mcol_age_step row))
              else Inr None) of Inl e \<Rightarrow> Inl e | Inr ast \<Rightarrow>
        Inr \<lparr> meta_id = i,
              title = mcol_title row,
              country_codes = (case mcol_country_codes row of None \<Rightarrow> []
                               | Some s \<Rightarrow> if s \<noteq> [] then split_comma s else []),
              type = mcol_type row,
              source = mcol_source row,
              link = mcol_link row,
              yield_class_step = ycs,
              age_step = ast,
              tree_type = mcol_tree_type row,
              available_columns = find_available_columns src ''id'' i \<rparr>)))"

text \<open>
  \<^verbatim>\<open>yield_table_meta = YieldTableMeta(**csv_row)\<close>: the constructor validates the row and
  raises when it does not accept it.
\<close>

definition meta_of_row :: "(YieldTableMeta \<Rightarrow> bool) \<Rightarrow> data_csv_row list \<Rightarrow> meta_csv_row
                             \<Rightarrow> error + YieldTableMeta" where
  "meta_of_row accepts src row =
     (case csv_row_of src row of Inl e \<Rightarrow> Inl e
      | Inr csv_row \<Rightarrow> if accepts csv_row then Inr csv_row else Inl ValidationError)"

text \<open>The loop \<^verbatim>\<open>for row in reader: ... yield_table_meta_list.append(...)\<close>.\<close>

fun meta_loop :: "(YieldTableMeta \<Rightarrow> bool) \<Rightarrow> data_csv_row list \<Rightarrow> meta_csv_row list
                    \<Rightarrow> YieldTableMeta list \<Rightarrow> error + YieldTableMeta list" where
  "meta_loop accepts src [] acc = Inr acc"
| "meta_loop accepts src (row # reader) acc =
     (case meta_of_row accepts src row of Inl e \<Rightarrow> Inl e
      | Inr m \<Rightarrow> meta_loop accepts src reader (acc @ [m]))"

definition get_yield_tables_meta :: "(YieldTableMeta \<Rightarrow> bool) \<Rightarrow> meta_csv_row list
                                      \<Rightarrow> data_csv_row list \<Rightarrow> error + YieldTableMeta list" where
  "get_yield_tables_meta accepts meta_csv data_csv = meta_loop accepts data_csv meta_csv []"

text \<open>The scan of \<^verbatim>\<open>get_yield_table_meta\<close>: the first element with the id, or the error.\<close>

fun find_meta :: "int \<Rightarrow> YieldTableMeta list \<Rightarrow> error + YieldTableMeta" where
  "find_meta i [] = Inl (TableNotFound i)"
| "find_meta i (m # ms) = (if meta_id m = i then Inr m else find_meta i ms)"

definition get_yield_table_meta :: "(YieldTableMeta \<Rightarrow> bool) \<Rightarrow> meta_csv_row list \<Rightarrow> data_csv_row list \<Rightarrow> int
                                     \<Rightarrow> error + YieldTableMeta" where
  "get_yield_table_meta accepts meta_csv data_csv i =
     (case get_yield_tables_meta accepts meta_csv data_csv of Inl e \<Rightarrow> Inl e
      | Inr yield_table_meta_list \<Rightarrow> find_meta i yield_table_meta_list)"

section \<open>The yield table loader\<close>

text \<open>\<^verbatim>\<open>filtered_data = [row for row in reader if int(row["id"]) == id]\<close>: every row of the
  file has its id converted, also the rows of other tables.\<close>

fun filter_rows :: "int \<Rightarrow> data_csv_row list \<Rightarrow> error + data_csv_row list" where
  "filter_rows i [] = Inr []"
| "filter_rows i (row # reader) =
     (case int_cell (Some (col_id row)) of Inl e \<Rightarrow> Inl e
      | Inr j \<Rightarrow> (case filter_rows i reader of Inl e \<Rightarrow> Inl e
                  | Inr rest \<Rightarrow> Inr (if j = i then row # rest else rest)))"

text \<open>
  \<^verbatim>\<open>try: yield_class = int(row["yield_class"])\<close>
  \<^verbatim>\<open>except ValueError: yield_class = float(row["yield_class"])\<close>.
  Only a \<^verbatim>\<open>ValueError\<close> is caught.
\<close>

definition parse_yield_class :: "string option \<Rightarrow> error + ykey" where
  "parse_yield_class c =
     (case int_cell c of Inr n \<Rightarrow> Inr (IntKey n)
      | Inl e \<Rightarrow> if exc_class_of e = ValueError
                 then (case float_cell c of Inl e' \<Rightarrow> Inl e' | Inr x \<Rightarrow> Inr (FloatKey x))
                 else Inl e)"

text \<open>The constructor call \<^verbatim>\<open>YieldClassRow(age=int(row["age"]), ...)\<close>.\<close>

definition make_row :: "data_csv_row \<Rightarrow> error + YieldClassRow" where
  "make_row row =
     (case int_cell (col_age row) of Inl e \<Rightarrow> Inl e
      | Inr a \<Rightarrow>
          Inr \<lparr> age = a,
              dominant_height = parse_float (col_dominant_height row),
              average_height = parse_float (col_average_height row),
              dbh = parse_float (col_dbh row),
              taper = parse_float (col_taper row),
              trees_per_ha = parse_float (col_trees_per_ha row),
              basal_area = parse_float (col_basal_area row),
              volume_per_ha = parse_float (col_volume_per_ha row),
              average_annual_age_increment = parse_float (col_average_annual_age_increment row),
              total_growth_performance = parse_float (col_total_growth_performance row),
              current_annual_increment = parse_float (col_current_annual_increment row),
              mean_annual_increment = parse_float (col_mean_annual_increment row) \<rparr>)"

text \<open>
  \<^verbatim>\<open>yield_classes_dict\<close>: a Python dictionary keeps its keys in insertion order, and a key
  that compares equal to a stored one finds that entry.  So it is a list of pairs in which
  no two keys are equal.
\<close>

type_synonym yield_classes_dict = "(ykey \<times> YieldClassRow list) list"

fun dict_contains :: "ykey \<Rightarrow> yield_classes_dict \<Rightarrow> bool" where
  "dict_contains k [] = False"
| "dict_contains k ((k', v) # d) = (key_eq k' k \<or> dict_contains k d)"

fun dict_append :: "ykey \<Rightarrow> YieldClassRow \<Rightarrow> yield_classes_dict \<Rightarrow> yield_classes_dict" where
  "dict_append k r [] = []"
| "dict_append k r ((k', v) # d) =
     (if key_eq k' k then (k', v @ [r]) # d else (k', v) # dict_append k r d)"

text \<open>
  \<^verbatim>\<open>if yield_class not in yield_classes_dict: yield_classes_dict[yield_class] = []\<close>
  \<^verbatim>\<open>yield_classes_dict[yield_class].append(...)\<close>
\<close>

definition group_step :: "yield_classes_dict \<Rightarrow> ykey \<Rightarrow> YieldClassRow \<Rightarrow> yield_classes_dict" where
  "group_step d k r =
     dict_append k r (if dict_contains k d then d else d @ [(k, [])])"

fun group_loop :: "data_csv_row list \<Rightarrow> yield_classes_dict \<Rightarrow> error + yield_classes_dict" where
  "group_loop [] d = Inr d"
| "group_loop (row # rest) d =
     (case parse_yield_class (col_yield_class row) of Inl e \<Rightarrow> Inl e
      | Inr k \<Rightarrow> (case make_row row of Inl e \<Rightarrow> Inl e
                  | Inr r \<Rightarrow> group_loop rest (group_step d k r)))"

definition get_yield_table :: "(YieldTableMeta \<Rightarrow> bool) \<Rightarrow> meta_csv_row list \<Rightarrow> data_csv_row list \<Rightarrow> int
                                \<Rightarrow> error + YieldTable" where
  "get_yield_table accepts meta_csv data_csv i =
     (case get_yield_table_meta accepts meta_csv data_csv i of Inl e \<Rightarrow> Inl e
      | Inr m \<Rightarrow>
     (case filter_rows i data_csv of Inl e \<Rightarrow> Inl e
      | Inr filtered_data \<Rightarrow>
     (case group_loop filtered_data [] of Inl e \<Rightarrow> Inl e
      | Inr d \<Rightarrow>
          Inr \<lparr> meta_id = meta_id m,
                title = title m,
                country_codes = country_codes m,
                type = type m,
                source = source m,
                link = link m,
                yield_class_step = yield_class_step m,
                age_step = age_step m,
                tree_type = tree_type m,
                available_columns = available_columns m,
                data = \<lparr> yield_classes =
                         map (\<lambda>(yc, rs). \<lparr> yield_class = yc, rows = rs \<rparr>) d \<rparr> \<rparr>)))"

section \<open>The yield class interpolator\<close>

fun find_class :: "int \<Rightarrow> int \<Rightarrow> YieldClass list \<Rightarrow> error + YieldClassRow list" where
  "find_class i yc [] = Inl (ClassNotFound yc i)"
| "find_class i yc (c # cs) =
     (if key_eq (yield_class c) (IntKey yc) then Inr (rows c) else find_class i yc cs)"

definition get_yield_table_of_class :: "(YieldTableMeta \<Rightarrow> bool) \<Rightarrow> meta_csv_row list \<Rightarrow> data_csv_row list \<Rightarrow> int \<Rightarrow> int
                                         \<Rightarrow> error + YieldClassRow list" where
  "get_yield_table_of_class accepts meta_csv data_csv i yc =
     (case get_yield_table accepts meta_csv data_csv i of Inl e \<Rightarrow> Inl e
      | Inr yield_table \<Rightarrow> find_class i yc (yield_classes (data yield_table)))"

text \<open>
  \<^verbatim>\<open>safe_float(value, default=0.0)\<close>: \<^verbatim>\<open>float(None)\<close> raises \<^verbatim>\<open>TypeError\<close>, which gives the
  default; a float is returned as it is.
\<close>

definition safe_float :: "real option \<Rightarrow> real" where
  "safe_float v = (case v of None \<Rightarrow> 0 | Some x \<Rightarrow> x)"

text \<open>
  \<^verbatim>\<open>np.interp(x, [x0, x1], [y0, y1])\<close> of numpy, for two sample points \<open>x0 < x1\<close>.
  numpy first makes an array of the sample values; a list that holds \<^verbatim>\<open>None\<close> becomes an
  array of objects, which \<^verbatim>\<open>np.interp\<close> refuses with the \<^verbatim>\<open>TypeError\<close> "Cannot cast
  array data from dtype('O') to dtype('float64') according to the rule 'safe'".  On
  numbers the value is \<open>y0\<close> left of \<open>x0\<close> and at \<open>x0\<close>, \<open>y1\<close> right of \<open>x1\<close> and at
  \<open>x1\<close>, and \<open>(y1 - y0) / (x1 - x0) * (x - x0) + y0\<close> in between.
\<close>

definition np_interp :: "real \<Rightarrow> int \<times> int \<Rightarrow> real option \<times> real option \<Rightarrow> error + real" where
  "np_interp x xp fp =
     (case fst fp of None \<Rightarrow> Inl CannotCast
      | Some y0 \<Rightarrow>
     (case snd fp of None \<Rightarrow> Inl CannotCast
      | Some y1 \<Rightarrow>
          (let x0 = real_of_int (fst xp); x1 = real_of_int (snd xp)
           in Inr (if x1 < x then y1
                   else if x < x0 then y0
                   else if x1 \<le> x then y1
                   else if x0 = x then y0
                   else (y1 - y0) / (x1 - x0) * (x - x0) + y0))))"

definition lower_yield_class :: "real \<Rightarrow> int" where
  "lower_yield_class target_yield_class = int_of_float target_yield_class"

definition upper_yield_class :: "real \<Rightarrow> int" where
  "upper_yield_class target_yield_class = lower_yield_class target_yield_class + 1"

text \<open>An exception ends the evaluation: the rest runs on the value of a step that returns.\<close>

definition bind_err :: "error + 'a \<Rightarrow> ('a \<Rightarrow> error + 'b) \<Rightarrow> error + 'b" where
  "bind_err r f = (case r of Inl e \<Rightarrow> Inl e | Inr x \<Rightarrow> f x)"

text \<open>
  The constructor call \<^verbatim>\<open>YieldClassRow(age=int(lower_row.age), dominant_height=np.interp(...), ...)\<close>
  in the loop over \<^verbatim>\<open>zip(yield_table_lower_class, yield_table_upper_class)\<close>: the arguments
  are evaluated in the order they are written.  Only \<^verbatim>\<open>current_annual_increment\<close> goes
  through \<^verbatim>\<open>safe_float\<close>.
\<close>

definition interp_row :: "real \<Rightarrow> YieldClassRow \<times> YieldClassRow \<Rightarrow> error + YieldClassRow" where
  "interp_row target p =
     (let lower_row = fst p; upper_row = snd p;
          xp = (lower_yield_class target, upper_yield_class target)
      in
      bind_err (np_interp target xp (dominant_height lower_row, dominant_height upper_row)) (\<lambda>dh.
      bind_err (np_interp target xp (average_height lower_row, average_height upper_row)) (\<lambda>ah.
      bind_err (np_interp target xp (dbh lower_row, dbh upper_row)) (\<lambda>db.
      bind_err (np_interp target xp (taper lower_row, taper upper_row)) (\<lambda>tp.
      bind_err (np_interp target xp (trees_per_ha lower_row, trees_per_ha upper_row)) (\<lambda>tr.
      bind_err (np_interp target xp (basal_area lower_row, basal_area upper_row)) (\<lambda>ba.
      bind_err (np_interp target xp (volume_per_ha lower_row, volume_per_ha upper_row)) (\<lambda>vo.
      bind_err (np_interp target xp (average_annual_age_increment lower_row, average_annual_age_increment upper_row)) (\<lambda>aa.
      bind_err (np_interp target xp (total_growth_performance lower_row, total_growth_performance upper_row)) (\<lambda>tg.
      bind_err (np_interp target xp
                  (Some (safe_float (current_annual_increment lower_row)),
                   Some (safe_float (current_annual_increment upper_row)))) (\<lambda>ca.
      bind_err (np_interp target xp (mean_annual_increment lower_row, mean_annual_increment upper_row)) (\<lambda>ma.
        Inr \<lparr> age = age lower_row,
              dominant_height = Some dh,
              average_height = Some ah,
              dbh = Some db,
              taper = Some tp,
              trees_per_ha = Some tr,
              basal_area = Some ba,
              volume_per_ha = Some vo,
              average_annual_age_increment = Some aa,
              total_growth_performance = Some tg,
              current_annual_increment = Some ca,
              mean_annual_increment = Some ma \<rparr>))))))))))))"

text \<open>The loop \<^verbatim>\<open>for lower_row, upper_row in zip(...): interpolation_table.append(...)\<close>.\<close>

fun interp_loop :: "real \<Rightarrow> (YieldClassRow \<times> YieldClassRow) list \<Rightarrow> YieldClassRow list
                      \<Rightarrow> error + YieldClassRow list" where
  "interp_loop target [] interpolation_table = Inr interpolation_table"
| "interp_loop target (p # ps) interpolation_table =
     (case interp_row target p of Inl e \<Rightarrow> Inl e
      | Inr r \<Rightarrow> interp_loop target ps (interpolation_table @ [r]))"

definition get_interpolated_yield_table :: "(YieldTableMeta \<Rightarrow> bool) \<Rightarrow> meta_csv_row list \<Rightarrow> data_csv_row list \<Rightarrow> int \<Rightarrow> real
                                             \<Rightarrow> error + YieldClass" where
  "get_interpolated_yield_table accepts meta_csv data_csv i target =
     (case get_yield_table_of_class accepts meta_csv data_csv i (lower_yield_class target) of
        Inl e \<Rightarrow> Inl e
      | Inr yield_table_lower_class \<Rightarrow>
     (case get_yield_table_of_class accepts meta_csv data_csv i (upper_yield_class target) of
        Inl e \<Rightarrow> Inl e
      | Inr yield_table_upper_class \<Rightarrow>
     (case interp_loop target (zip yield_table_lower_class yield_table_upper_class) [] of
        Inl e \<Rightarrow> Inl e
      | Inr interpolation_table \<Rightarrow>
          Inr \<lparr> yield_class = FloatKey target, rows = interpolation_table \<rparr>)))"

section \<open>The request layer\<close>

text \<open>
  The two handlers of \<^verbatim>\<open>api/v1/yieldtables.py\<close>.  Each catches \<^verbatim>\<open>ValueError\<close> and nothing
  else, and answers it with status 404 and the message
  \<^verbatim>\<open>f"Yield table with ID {yield_table_id} not found."\<close>, respectively
  \<^verbatim>\<open>f"Yield class {interpolation_value} not found."\<close>.  The rendering of a result by
  \<^verbatim>\<open>send_response\<close> is not among the sources; a rendered result is \<open>Rendered\<close> of it.
\<close>

datatype detail = TableMessage int | ClassMessage real

datatype 'a response = Rendered 'a | HTTPException nat detail | Uncaught error

definition read_yield_table_data :: "(YieldTableMeta \<Rightarrow> bool) \<Rightarrow> meta_csv_row list \<Rightarrow> data_csv_row list \<Rightarrow> int
                                      \<Rightarrow> YieldTable response" where
  "read_yield_table_data accepts meta_csv data_csv yield_table_id =
     (case get_yield_table accepts meta_csv data_csv yield_table_id of
        Inr t \<Rightarrow> Rendered t
      | Inl e \<Rightarrow> if exc_class_of e = ValueError
                 then HTTPException 404 (TableMessage yield_table_id)
                 else Uncaught e)"

definition read_interpolated_yield_table_data :: "(YieldTableMeta \<Rightarrow> bool) \<Rightarrow> meta_csv_row list \<Rightarrow> data_csv_row list \<Rightarrow> int
                                      \<Rightarrow> real \<Rightarrow> YieldClass response" where
  "read_interpolated_yield_table_data accepts meta_csv data_csv yield_table_id interpolation_value =
     (case get_interpolated_yield_table accepts meta_csv data_csv yield_table_id interpolation_value of
        Inr c \<Rightarrow> Rendered c
      | Inl e \<Rightarrow> if exc_class_of e = ValueError
                 then HTTPException 404 (ClassMessage interpolation_value)
                 else Uncaught e)"

section \<open>Specification vocabulary\<close>

text \<open>The eleven measurement fields of a \<open>YieldClassRow\<close>.\<close>

definition measurement_fields :: "(YieldClassRow \<Rightarrow> real option) list" where
  "measurement_fields =
    [dominant_height, average_height, dbh, taper, trees_per_ha, basal_area, volume_per_ha,
     average_annual_age_increment, total_growth_performance, current_annual_increment,
     mean_annual_increment]"

text \<open>The elements of a list in the order of their first occurrence.\<close>

definition first_seen :: "'a list \<Rightarrow> 'a list" where
  "first_seen xs = rev (remdups (rev xs))"

text \<open>A table has the integer class \<open>c\<close> when one of its keys equals \<open>c\<close>.\<close>

definition has_class :: "YieldTable \<Rightarrow> int \<Rightarrow> bool" where
  "has_class t c = list_ex (\<lambda>yc. key_eq (yield_class yc) (IntKey c)) (yield_classes (data t))"

section \<open>Example sources\<close>

text \<open>
  A metadata file of three rows, the third repeating the id of the first, and a data file
  with the classes 6 and 7 of table 1 (dominant heights 5.0, 8.0 and 6.0, 9.0 at the
  ages 10 and 20) and one row of table 2.  Some cells of the current annual increment
  are empty; every other measurement cell has a number.
\<close>

definition example_meta_row :: "string \<Rightarrow> string \<Rightarrow> string \<Rightarrow> string \<Rightarrow> meta_csv_row" where
  "example_meta_row i t ycs ast =
     \<lparr> mcol_id = i, mcol_title = Some t, mcol_country_codes = Some ''AT,DE'',
       mcol_type = Some ''dgz_100'', mcol_source = Some ''Marschall'', mcol_link = Some [],
       mcol_yield_class_step = Some ycs, mcol_age_step = Some ast,
       mcol_tree_type = Some ''coniferous'' \<rparr>"

definition example_data_row :: "string \<Rightarrow> string \<Rightarrow> string \<Rightarrow> string \<Rightarrow> string \<Rightarrow> data_csv_row" where
  "example_data_row i yc a dh cai =
     \<lparr> col_id = i, col_yield_class = Some yc, col_age = Some a,
       col_dominant_height = Some dh, col_average_height = Some ''4.5'',
       col_dbh = Some ''7'', col_taper = Some ''0.5'', col_trees_per_ha = Some ''25'',
       col_basal_area = Some ''9.5'', col_volume_per_ha = Some ''30'',
       col_average_annual_age_increment = Some ''3'',
       col_total_growth_performance = Some ''30'', col_current_annual_increment = Some cai,
       col_mean_annual_increment = Some ''3'' \<rparr>"

definition example_meta_csv :: "meta_csv_row list" where
  "example_meta_csv =
    [example_meta_row ''1'' ''Fichte Hochgebirge'' ''1'' ''10'',
     example_meta_row ''2'' ''Fichte Bayern'' [] [],
     example_meta_row ''1'' ''Kiefer'' ''0.5'' ''5'']"

definition example_data_csv :: "data_csv_row list" where
  "example_data_csv =
    [example_data_row ''1'' ''6'' ''10'' ''5.0'' [],
     example_data_row ''1'' ''6'' ''20'' ''8.0'' ''0.4'',
     example_data_row ''2'' ''6'' ''10'' ''4.0'' [],
     example_data_row ''1'' ''7'' ''10'' ''6.0'' [],
     example_data_row ''1'' ''6'' ''30'' ''10.0'' [],
     example_data_row ''1'' ''7'' ''20'' ''9.0'' ''0.6'',
     example_data_row ''1'' ''7.0'' ''30'' ''11.0'' ''0.7'',
     example_data_row ''1'' ''7'' ''30'' ''11.5'' ''0.8'']"

text \<open>A constructor for the example: it accepts the tree types \<^verbatim>\<open>coniferous\<close> and
  \<^verbatim>\<open>deciduous\<close> and no other.\<close>

definition example_accepts :: "YieldTableMeta \<Rightarrow> bool" where
  "example_accepts m \<longleftrightarrow> tree_type m = Some ''coniferous'' \<or> tree_type m = Some ''deciduous''"

text \<open>The same data file with no dominant height at age 30 in class 6.\<close>

definition example_sparse_data_csv :: "data_csv_row list" where
  "example_sparse_data_csv =
    [example_data_row ''1'' ''6'' ''10'' ''5.0'' [],
     example_data_row ''1'' ''6'' ''20'' ''8.0'' ''0.4'',
     example_data_row ''2'' ''6'' ''10'' ''4.0'' [],
     example_data_row ''1'' ''7'' ''10'' ''6.0'' [],
     example_data_row ''1'' ''6'' ''30'' [] [],
     example_data_row ''1'' ''7'' ''20'' ''9.0'' ''0.6'',
     example_data_row ''1'' ''7.0'' ''30'' ''11.0'' ''0.7'',
     example_data_row ''1'' ''7'' ''30'' ''11.5'' ''0.8'']"

text \<open>A data file with the classes -1 and 0 of table 1, and one with the classes 0 and 1.\<close>

definition example_negative_data_csv :: "data_csv_row list" where
  "example_negative_data_csv =
    [example_data_row ''1'' ''-1'' ''10'' ''4.0'' ''0.2'',
     example_data_row ''1'' ''0'' ''10'' ''5.0'' ''0.3'']"

definition example_zero_data_csv :: "data_csv_row list" where
  "example_zero_data_csv =
    [example_data_row ''1'' ''0'' ''10'' ''5.0'' ''0.3'',
     example_data_row ''1'' ''1'' ''10'' ''6.0'' ''0.4'']"

section \<open>Proof vocabulary\<close>

text \<open>The numeric values of the keys of a dictionary, in order, and the grouping loop run
  on rows that are already converted.\<close>

definition dict_keys :: "yield_classes_dict \<Rightarrow> real list" where
  "dict_keys d = map (\<lambda>p. key_val (fst p)) d"

definition group_pairs :: "yield_classes_dict \<Rightarrow> (ykey \<times> YieldClassRow) list \<Rightarrow> yield_classes_dict" where
  "group_pairs d ps = foldl (\<lambda>d p. group_step d (fst p) (snd p)) d ps"



text \<open>The ten measurement fields that reach \<^verbatim>\<open>np.interp\<close> without \<open>safe_float\<close>, and a pair
  of rows that has a number in each of them.\<close>

definition unguarded_fields :: "(YieldClassRow \<Rightarrow> real option) list" where
  "unguarded_fields =
    [dominant_height, average_height, dbh, taper, trees_per_ha, basal_area, volume_per_ha,
     average_annual_age_increment, total_growth_performance, mean_annual_increment]"

definition pair_complete :: "YieldClassRow \<times> YieldClassRow \<Rightarrow> bool" where
  "pair_complete p \<longleftrightarrow> list_all (\<lambda>f. f (fst p) \<noteq> None \<and> f (snd p) \<noteq> None) unguarded_fields"

section \<open>The values of the example\<close>

definition example_meta :: "int \<Rightarrow> string \<Rightarrow> real option \<Rightarrow> int option \<Rightarrow> string list \<Rightarrow> YieldTableMeta" where
  "example_meta i t ycs ast cols =
     \<lparr> meta_id = i, title = Some t, country_codes = [''AT'', ''DE''],
       type = Some ''dgz_100'', source = Some ''Marschall'', link = Some [],
       yield_class_step = ycs, age_step = ast, tree_type = Some ''coniferous'',
       available_columns = structural_columns @ cols \<rparr>"

definition example_meta_list :: "YieldTableMeta list" where
  "example_meta_list =
    [example_meta 1 ''Fichte Hochgebirge'' (Some 1) (Some 10) (map fst measurement_columns),
     example_meta 2 ''Fichte Bayern'' None None
       (filter (\<lambda>c. c \<noteq> ''current_annual_increment'') (map fst measurement_columns)),
     example_meta 1 ''Kiefer'' (Some (1 / 2)) (Some 5) (map fst measurement_columns)]"

definition example_row :: "int \<Rightarrow> real option \<Rightarrow> real option \<Rightarrow> YieldClassRow" where
  "example_row a dh cai =
     \<lparr> age = a, dominant_height = dh, average_height = Some (9 / 2), dbh = Some 7,
       taper = Some (1 / 2), trees_per_ha = Some 25, basal_area = Some (19 / 2),
       volume_per_ha = Some 30, average_annual_age_increment = Some 3,
       total_growth_performance = Some 30, current_annual_increment = cai,
       mean_annual_increment = Some 3 \<rparr>"

definition example_class_6 :: "YieldClassRow list" where
  "example_class_6 =
    [example_row 10 (Some 5) None,
     example_row 20 (Some 8) (Some (2 / 5)),
     example_row 30 (Some 10) None]"

definition example_class_7 :: "YieldClassRow list" where
  "example_class_7 =
    [example_row 10 (Some 6) None,
     example_row 20 (Some 9) (Some (3 / 5)),
     example_row 30 (Some 11) (Some (7 / 10)),
     example_row 30 (Some (23 / 2)) (Some (4 / 5))]"

definition example_table :: YieldTable where
  "example_table =
     \<lparr> meta_id = 1, title = Some ''Fichte Hochgebirge'', country_codes = [''AT'', ''DE''],
       type = Some ''dgz_100'', source = Some ''Marschall'', link = Some [],
       yield_class_step = Some 1, age_step = Some 10, tree_type = Some ''coniferous'',
       available_columns = structural_columns @ map fst measurement_columns,
       data = \<lparr> yield_classes =
                [\<lparr> yield_class = IntKey 6, rows = example_class_6 \<rparr>,
                 \<lparr> yield_class = IntKey 7, rows = example_class_7 \<rparr>] \<rparr> \<rparr>"


definition example_bad_data_csv :: "data_csv_row list" where
  "example_bad_data_csv =
    [example_data_row ''1'' ''6'' ''10'' ''5.0'' [],
     example_data_row ''2'' ''6'' ''10'' ''4.0'' [],
     example_data_row ''1'' ''6'' ''abc'' ''8.0'' ''0.4'',
     example_data_row ''1'' ''7'' ''10'' ''6.0'' []]"


section \<open>Auxiliary facts\<close>

subsection \<open>Lookups\<close>

lemma find_meta_find:
  "find_meta i ms = (case find (\<lambda>m. meta_id m = i) ms of
                       Some m \<Rightarrow> Inr m | None \<Rightarrow> Inl (TableNotFound i))"
  by (induction ms) auto

lemma find_meta_id: "find_meta i ms = Inr m \<Longrightarrow> meta_id m = i \<and> m \<in> set ms"
  by (induction ms) (auto split: if_splits)

lemma find_meta_absent: "i \<notin> meta_id ` set ms \<Longrightarrow> find_meta i ms = Inl (TableNotFound i)"
  by (induction ms) auto

lemma find_meta_present: "i \<in> meta_id ` set ms \<Longrightarrow> \<exists>m. find_meta i ms = Inr m"
  by (induction ms) auto

lemma get_yield_table_meta_id:
  "get_yield_table_meta accepts meta_csv data_csv i = Inr m \<Longrightarrow> meta_id m = i"
  by (auto simp: get_yield_table_meta_def find_meta_id split: sum.splits)

lemma find_class_found:
  "list_ex (\<lambda>yc. key_eq (yield_class yc) (IntKey c)) cs \<Longrightarrow> \<exists>rs. find_class i c cs = Inr rs"
  by (induction cs) auto

lemma find_class_missing:
  "\<not> list_ex (\<lambda>yc. key_eq (yield_class yc) (IntKey c)) cs
     \<Longrightarrow> find_class i c cs = Inl (ClassNotFound c i)"
  by (induction cs) auto

lemma of_class_find:
  "get_yield_table accepts meta_csv data_csv i = Inr t \<Longrightarrow>
   get_yield_table_of_class accepts meta_csv data_csv i c = find_class i c (yield_classes (data t))"
  by (simp add: get_yield_table_of_class_def)

lemma of_class_has_class:
  assumes "get_yield_table accepts meta_csv data_csv i = Inr t"
  shows "(\<exists>rs. get_yield_table_of_class accepts meta_csv data_csv i c = Inr rs) \<longleftrightarrow> has_class t c"
    and "\<not> has_class t c \<Longrightarrow>
           get_yield_table_of_class accepts meta_csv data_csv i c = Inl (ClassNotFound c i)"
proof -
  let ?cs = "yield_classes (data t)"
  have eq: "get_yield_table_of_class accepts meta_csv data_csv i c = find_class i c ?cs"
    by (rule of_class_find [OF assms])
  show "(\<exists>rs. get_yield_table_of_class accepts meta_csv data_csv i c = Inr rs) \<longleftrightarrow> has_class t c"
  proof (cases "has_class t c")
    case True
    then show ?thesis
      using find_class_found [of c ?cs i] by (simp add: eq has_class_def)
  next
    case False
    then have "find_class i c ?cs = Inl (ClassNotFound c i)"
      by (intro find_class_missing) (simp add: has_class_def)
    with False show ?thesis by (simp add: eq)
  qed
  show "get_yield_table_of_class accepts meta_csv data_csv i c = Inl (ClassNotFound c i)"
    if "\<not> has_class t c"
    unfolding eq using that by (intro find_class_missing) (simp add: has_class_def)
qed

subsection \<open>The metadata loop\<close>












subsection \<open>Truncation\<close>

lemma ceiling_nonint: "t \<notin> \<int> \<Longrightarrow> \<lceil>t::real\<rceil> = \<lfloor>t\<rfloor> + 1"
  by (metis Ints_of_int ceiling_altdef)

lemma ceiling_int: "t \<in> \<int> \<Longrightarrow> \<lceil>t::real\<rceil> = \<lfloor>t\<rfloor>"
  by (auto elim: Ints_cases)

lemma lower_yield_class_of_int: "lower_yield_class (real_of_int n) = n"
  by (simp add: lower_yield_class_def int_of_float_def)

lemma minus_half_not_int: "(- 1 / 2 :: real) \<notin> \<int>"
proof
  assume "(- 1 / 2 :: real) \<in> \<int>"
  then obtain n :: int where "(- 1 / 2 :: real) = of_int n"
    by (auto elim: Ints_cases)
  then have "real_of_int (2 * n) = real_of_int (- 1)"
    by simp
  then have "2 * n = - 1"
    by (simp only: of_int_eq_iff)
  then show False
    by presburger
qed

lemma lower_between_nonneg:
  "real_of_int L < t \<Longrightarrow> t < real_of_int L + 1 \<Longrightarrow> 0 \<le> L \<Longrightarrow> lower_yield_class t = L"
  by (simp add: lower_yield_class_def int_of_float_def floor_unique)

lemma lower_between_neg:
  "real_of_int L < t \<Longrightarrow> t < real_of_int L + 1 \<Longrightarrow> L < 0 \<Longrightarrow> lower_yield_class t = L + 1"
proof -
  assume a: "real_of_int L < t" "t < real_of_int L + 1" "L < 0"
  then have "L + 1 \<le> 0" by simp
  then have "real_of_int (L + 1) \<le> 0" by (simp only: of_int_le_0_iff)
  with a have neg: "t < 0" by simp
  have "\<lceil>t\<rceil> = L + 1"
    using a by (intro ceiling_unique) simp_all
  with neg show ?thesis
    by (simp add: lower_yield_class_def int_of_float_def)
qed

subsection \<open>The filter and the grouping loop\<close>

lemma filter_rows_filter:
  "filter_rows i rs = Inr kept \<Longrightarrow> kept = filter (\<lambda>r. py_int (col_id r) = Some i) rs"
proof (induction rs arbitrary: kept)
  case Nil
  then show ?case by simp
next
  case (Cons r rs)
  then show ?case
    by (auto simp: int_cell_def split: sum.splits option.splits if_splits)
qed

lemma filter_rows_total:
  "\<forall>r \<in> set rs. py_int (col_id r) \<noteq> None \<Longrightarrow>
   filter_rows i rs = Inr (filter (\<lambda>r. py_int (col_id r) = Some i) rs)"
  by (induction rs) (auto simp: int_cell_def split: sum.splits option.splits)

lemma group_loop_pairs:
  "group_loop rs d = Inr d' \<Longrightarrow>
   \<exists>ks ys. list_all2 (\<lambda>row k. parse_yield_class (col_yield_class row) = Inr k) rs ks
         \<and> list_all2 (\<lambda>row y. make_row row = Inr y) rs ys
         \<and> d' = group_pairs d (zip ks ys)"
proof (induction rs arbitrary: d)
  case Nil
  then show ?case by (simp add: group_pairs_def)
next
  case (Cons row rs)
  from Cons.prems obtain k y where k: "parse_yield_class (col_yield_class row) = Inr k"
    and y: "make_row row = Inr y" and rest: "group_loop rs (group_step d k y) = Inr d'"
    by (auto split: sum.splits)
  from Cons.IH [OF rest] obtain ks ys
    where a: "list_all2 (\<lambda>row k. parse_yield_class (col_yield_class row) = Inr k) rs ks"
      and b: "list_all2 (\<lambda>row y. make_row row = Inr y) rs ys"
      and c: "d' = group_pairs (group_step d k y) (zip ks ys)"
    by blast
  have "list_all2 (\<lambda>row k. parse_yield_class (col_yield_class row) = Inr k) (row # rs) (k # ks)"
    using a k by simp
  moreover have "list_all2 (\<lambda>row y. make_row row = Inr y) (row # rs) (y # ys)"
    using b y by simp
  moreover have "d' = group_pairs d (zip (k # ks) (y # ys))"
    using c by (simp add: group_pairs_def)
  ultimately show ?case by blast
qed

lemma dict_contains_keys: "dict_contains k d \<longleftrightarrow> key_val k \<in> set (dict_keys d)"
  by (induction d) (auto simp: dict_keys_def key_eq_def)

lemma dict_append_map:
  "distinct (dict_keys d) \<Longrightarrow>
   dict_append k r d = map (\<lambda>p. (fst p, if key_val (fst p) = key_val k then snd p @ [r] else snd p)) d"
proof (induction d)
  case Nil
  then show ?case by simp
next
  case (Cons p d)
  obtain k' v where p: "p = (k', v)" by (cases p)
  from Cons.prems have dist: "distinct (dict_keys d)" and notin: "key_val k' \<notin> set (dict_keys d)"
    by (simp_all add: dict_keys_def p)
  show ?case
  proof (cases "key_val k' = key_val k")
    case True
    have "map (\<lambda>p. (fst p, if key_val (fst p) = key_val k then snd p @ [r] else snd p)) d = d"
      using notin True by (intro map_idI) (force simp: dict_keys_def)
    with True show ?thesis by (simp add: p key_eq_def)
  next
    case False
    with Cons.IH [OF dist] show ?thesis by (simp add: p key_eq_def)
  qed
qed

lemma group_step_map:
  assumes "distinct (dict_keys d)"
  shows "group_step d k r =
     map (\<lambda>p. (fst p, if key_val (fst p) = key_val k then snd p @ [r] else snd p))
       (if key_val k \<in> set (dict_keys d) then d else d @ [(k, [])])"
proof -
  have "distinct (dict_keys (if key_val k \<in> set (dict_keys d) then d else d @ [(k, [])]))"
    using assms by (simp add: dict_keys_def)
  then show ?thesis
    by (simp add: group_step_def dict_contains_keys dict_append_map)
qed

lemma dict_keys_group_step:
  assumes "distinct (dict_keys d)"
  shows "dict_keys (group_step d k r)
           = (if key_val k \<in> set (dict_keys d) then dict_keys d else dict_keys d @ [key_val k])"
  by (simp add: group_step_map [OF assms]) (simp add: dict_keys_def comp_def)

lemma first_seen_snoc:
  "first_seen (xs @ [x]) = (if x \<in> set xs then first_seen xs else first_seen xs @ [x])"
  by (simp add: first_seen_def)

lemma set_first_seen: "set (first_seen xs) = set xs"
  by (simp add: first_seen_def)

lemma distinct_first_seen: "distinct (first_seen xs)"
  by (simp add: first_seen_def)

lemma group_pairs_snoc: "group_pairs d (ps @ [p]) = group_step (group_pairs d ps) (fst p) (snd p)"
  by (simp add: group_pairs_def)

lemma group_pairs_keys:
  "dict_keys (group_pairs [] ps) = first_seen (map (\<lambda>p. key_val (fst p)) ps)"
proof (induction ps rule: rev_induct)
  case Nil
  then show ?case by (simp add: group_pairs_def dict_keys_def first_seen_def)
next
  case (snoc p ps)
  have dist: "distinct (dict_keys (group_pairs [] ps))"
    by (simp add: snoc.IH distinct_first_seen)
  show ?case
    by (simp add: group_pairs_snoc dict_keys_group_step [OF dist] first_seen_snoc snoc.IH
          set_first_seen)
qed

lemma group_pairs_entries:
  "e \<in> set (group_pairs [] ps) \<Longrightarrow>
     snd e = map snd (filter (\<lambda>p. key_val (fst p) = key_val (fst e)) ps)
     \<and> fst e \<in> fst ` set ps"
proof (induction ps arbitrary: e rule: rev_induct)
  case Nil
  then show ?case by (simp add: group_pairs_def)
next
  case (snoc p ps)
  let ?d = "group_pairs [] ps"
  let ?f = "\<lambda>q. (fst q, if key_val (fst q) = key_val (fst p) then snd q @ [snd p] else snd q)"
  have dist: "distinct (dict_keys ?d)"
    by (simp add: group_pairs_keys distinct_first_seen)
  have step: "group_pairs [] (ps @ [p])
      = map ?f (if key_val (fst p) \<in> set (dict_keys ?d) then ?d else ?d @ [(fst p, [])])"
    by (simp add: group_pairs_snoc group_step_map [OF dist])
  from snoc.prems obtain q where q: "e = ?f q"
    and qin: "q \<in> set ?d \<or> (key_val (fst p) \<notin> set (dict_keys ?d) \<and> q = (fst p, []))"
    unfolding step by (auto split: if_splits)
  from qin show ?case
  proof
    assume "q \<in> set ?d"
    from snoc.IH [OF this] show ?thesis
      by (auto simp: q)
  next
    assume new: "key_val (fst p) \<notin> set (dict_keys ?d) \<and> q = (fst p, [])"
    then have "key_val (fst p) \<notin> (\<lambda>p. key_val (fst p)) ` set ps"
      by (simp add: group_pairs_keys set_first_seen)
    then have "\<forall>p' \<in> set ps. key_val (fst p') \<noteq> key_val (fst p)"
      by (metis (mono_tags, lifting) image_eqI)
    then have "filter (\<lambda>p'. key_val (fst p') = key_val (fst p)) ps = []"
      by (simp add: filter_empty_conv)
    with new show ?thesis
      by (simp add: q)
  qed
qed

lemma get_yield_table_Inr:
  assumes "get_yield_table accepts meta_csv data_csv i = Inr t"
  shows "\<exists>m dct. get_yield_table_meta accepts meta_csv data_csv i = Inr m
           \<and> filter_rows i data_csv = Inr (filter (\<lambda>r. py_int (col_id r) = Some i) data_csv)
           \<and> group_loop (filter (\<lambda>r. py_int (col_id r) = Some i) data_csv) [] = Inr dct
           \<and> meta_id t = i
           \<and> yield_classes (data t) = map (\<lambda>p. \<lparr> yield_class = fst p, rows = snd p \<rparr>) dct"
proof -
  from assms obtain m where m: "get_yield_table_meta accepts meta_csv data_csv i = Inr m"
    by (auto simp: get_yield_table_def split: sum.splits)
  from assms m obtain kept where kept: "filter_rows i data_csv = Inr kept"
    by (auto simp: get_yield_table_def split: sum.splits)
  from assms m kept obtain dct where dct: "group_loop kept [] = Inr dct"
    by (auto simp: get_yield_table_def split: sum.splits)
  have keq: "kept = filter (\<lambda>r. py_int (col_id r) = Some i) data_csv"
    by (rule filter_rows_filter [OF kept])
  have t: "meta_id t = meta_id m"
          "yield_classes (data t) = map (\<lambda>(yc, rs). \<lparr> yield_class = yc, rows = rs \<rparr>) dct"
    using assms m kept dct by (auto simp: get_yield_table_def)
  have "(\<lambda>(yc, rs). \<lparr> yield_class = yc, rows = rs \<rparr>)
          = (\<lambda>p::ykey \<times> YieldClassRow list. \<lparr> yield_class = fst p, rows = snd p \<rparr>)"
    by (simp add: fun_eq_iff split: prod.splits)
  with t m kept dct keq get_yield_table_meta_id [OF m] show ?thesis
    by auto
qed

lemma group_loop_append:
  "group_loop (pre @ rest) d =
     (case group_loop pre d of Inl e \<Rightarrow> Inl e | Inr d' \<Rightarrow> group_loop rest d')"
  by (induction pre arbitrary: d) (auto split: sum.splits)

lemma group_loop_ok:
  "\<forall>r \<in> set rs. (\<exists>k. parse_yield_class (col_yield_class r) = Inr k) \<and> (\<exists>y. make_row r = Inr y)
     \<Longrightarrow> \<exists>d'. group_loop rs d = Inr d'"
  by (induction rs arbitrary: d) auto

lemma make_row_bad_age:
  "col_age row = Some s \<Longrightarrow> py_int s = None \<Longrightarrow> make_row row = Inl (InvalidLiteral s)"
  by (simp add: make_row_def int_cell_def)

lemma get_yield_table_bad_age:
  assumes meta: "get_yield_table_meta accepts meta_csv data_csv i = Inr m"
      and ids: "\<forall>r \<in> set data_csv. py_int (col_id r) \<noteq> None"
      and kept: "filter (\<lambda>r. py_int (col_id r) = Some i) data_csv = pre @ row # post"
      and pre: "\<forall>r \<in> set pre. (\<exists>k. parse_yield_class (col_yield_class r) = Inr k)
                               \<and> (\<exists>y. make_row r = Inr y)"
      and key: "parse_yield_class (col_yield_class row) = Inr k"
      and age: "col_age row = Some s" "py_int s = None"
  shows "get_yield_table accepts meta_csv data_csv i = Inl (InvalidLiteral s)"
proof -
  have f: "filter_rows i data_csv = Inr (pre @ row # post)"
    using filter_rows_total [OF ids, of i] kept by simp
  from group_loop_ok [OF pre, of "[]"] obtain d where d: "group_loop pre [] = Inr d"
    by blast
  have "group_loop (row # post) d = Inl (InvalidLiteral s)"
    by (simp add: key make_row_bad_age [OF age])
  then have "group_loop (pre @ row # post) [] = Inl (InvalidLiteral s)"
    by (simp add: group_loop_append d)
  then show ?thesis
    by (simp add: get_yield_table_def meta f)
qed

subsection \<open>Interpolation of one pair of rows\<close>

lemma bind_err_Inr: "bind_err m f = Inr y \<longleftrightarrow> (\<exists>x. m = Inr x \<and> f x = Inr y)"
  by (cases m) (simp_all add: bind_err_def)

lemma bind_err_Inl: "bind_err m f = Inl e \<longleftrightarrow> m = Inl e \<or> (\<exists>x. m = Inr x \<and> f x = Inl e)"
  by (cases m) (simp_all add: bind_err_def)

lemma np_interp_Inl: "np_interp x xp fp = Inl e \<Longrightarrow> e = CannotCast"
  by (auto simp: np_interp_def Let_def split: option.splits)

lemma np_interp_Some:
  "np_interp x xp (Some y0, Some y1) =
     Inr (if real_of_int (snd xp) < x then y1
          else if x < real_of_int (fst xp) then y0
          else if real_of_int (snd xp) \<le> x then y1
          else if real_of_int (fst xp) = x then y0
          else (y1 - y0) / (real_of_int (snd xp) - real_of_int (fst xp))
                 * (x - real_of_int (fst xp)) + y0)"
  by (simp add: np_interp_def Let_def)

lemma np_interp_None: "np_interp x xp (None, y1) = Inl CannotCast"
  "np_interp x xp (y0, None) = Inl CannotCast"
  by (simp_all add: np_interp_def split: option.splits)

lemma np_interp_Inr_iff:
  "(\<exists>v. np_interp x xp (y0, y1) = Inr v) \<longleftrightarrow> y0 \<noteq> None \<and> y1 \<noteq> None"
  by (cases y0; cases y1) (simp_all add: np_interp_Some np_interp_None)

lemma np_interp_between:
  assumes "np_interp x (lo, lo + 1) (Some a, Some b) = Inr v"
  shows "min a b \<le> v \<and> v \<le> max a b"
proof -
  consider "real_of_int lo + 1 \<le> x" | "x \<le> real_of_int lo"
    | "real_of_int lo < x" "x < real_of_int lo + 1"
    by linarith
  then show ?thesis
  proof cases
    case 1
    with assms have "v = b"
      by (auto simp: np_interp_Some split: if_splits)
    then show ?thesis by simp
  next
    case 2
    with assms have "v = a"
      by (auto simp: np_interp_Some split: if_splits)
    then show ?thesis by simp
  next
    case 3
    define s where "s = x - real_of_int lo"
    have s: "0 < s" "s < 1"
      using 3 by (simp_all add: s_def)
    have val: "v = (b - a) * s + a"
      using 3 assms by (simp add: np_interp_Some s_def)
    have "min a b \<le> (b - a) * s + a \<and> (b - a) * s + a \<le> max a b"
    proof (cases "a \<le> b")
      case True
      then have d: "0 \<le> b - a" by simp
      have p: "0 \<le> (b - a) * s"
        using d s by (intro mult_nonneg_nonneg) simp_all
      have "(b - a) * s \<le> (b - a) * 1"
        using d s by (intro mult_left_mono) simp_all
      then have q: "(b - a) * s \<le> b - a" by (simp only: mult_1_right)
      have m: "min a b = a" "max a b = b" using True by simp_all
      show ?thesis unfolding m using p q by linarith
    next
      case False
      then have d: "b - a \<le> 0" by simp
      have p: "(b - a) * s \<le> 0"
        using d s by (intro mult_nonpos_nonneg) simp_all
      have "(b - a) * 1 \<le> (b - a) * s"
        using d s by (intro mult_left_mono_neg) simp_all
      then have q: "b - a \<le> (b - a) * s" by (simp only: mult_1_right)
      have m: "min a b = b" "max a b = a" using False by simp_all
      show ?thesis unfolding m using p q by linarith
    qed
    with val show ?thesis by simp
  qed
qed

lemma np_interp_left:
  "x < real_of_int lo \<Longrightarrow> np_interp x (lo, lo + 1) (Some b, y1) = Inr v \<Longrightarrow> v = b"
  by (cases y1) (simp_all add: np_interp_Some np_interp_None)

lemma interp_row_Inl: "interp_row t p = Inl e \<Longrightarrow> e = CannotCast"
  unfolding interp_row_def Let_def
  by (auto simp: bind_err_Inl dest: np_interp_Inl)

lemma interp_row_age: "interp_row t p = Inr r \<Longrightarrow> age r = age (fst p)"
  unfolding interp_row_def Let_def
  by (auto simp: bind_err_Inr)

lemma interp_row_field:
  assumes "f \<in> set measurement_fields" and "interp_row t (l, u) = Inr r"
  shows "\<exists>y0 y1 v. np_interp t (lower_yield_class t, lower_yield_class t + 1) (y0, y1) = Inr v
          \<and> f r = Some v
          \<and> (\<forall>a. f l = Some a \<longrightarrow> y0 = Some a)
          \<and> (\<forall>b. f u = Some b \<longrightarrow> y1 = Some b)"
proof -
  let ?xp = "(lower_yield_class t, lower_yield_class t + 1)"
  have plain: ?thesis if "np_interp t ?xp (f l, f u) = Inr v" "f r = Some v" for v
    using that by blast
  have safe: ?thesis
    if "np_interp t ?xp (Some (safe_float (f l)), Some (safe_float (f u))) = Inr v" "f r = Some v"
    for v
  proof -
    have "\<forall>a. f l = Some a \<longrightarrow> Some (safe_float (f l)) = Some a"
      and "\<forall>b. f u = Some b \<longrightarrow> Some (safe_float (f u)) = Some b"
      by (simp_all add: safe_float_def)
    with that show ?thesis by blast
  qed
  from assms(2) obtain dh ah db tp tr ba vo aa tg ca ma where
    v: "np_interp t ?xp (dominant_height l, dominant_height u) = Inr dh"
       "np_interp t ?xp (average_height l, average_height u) = Inr ah"
       "np_interp t ?xp (dbh l, dbh u) = Inr db"
       "np_interp t ?xp (taper l, taper u) = Inr tp"
       "np_interp t ?xp (trees_per_ha l, trees_per_ha u) = Inr tr"
       "np_interp t ?xp (basal_area l, basal_area u) = Inr ba"
       "np_interp t ?xp (volume_per_ha l, volume_per_ha u) = Inr vo"
       "np_interp t ?xp (average_annual_age_increment l, average_annual_age_increment u) = Inr aa"
       "np_interp t ?xp (total_growth_performance l, total_growth_performance u) = Inr tg"
       "np_interp t ?xp (Some (safe_float (current_annual_increment l)),
                         Some (safe_float (current_annual_increment u))) = Inr ca"
       "np_interp t ?xp (mean_annual_increment l, mean_annual_increment u) = Inr ma"
    and r: "r = \<lparr> age = age l, dominant_height = Some dh, average_height = Some ah,
                  dbh = Some db, taper = Some tp, trees_per_ha = Some tr,
                  basal_area = Some ba, volume_per_ha = Some vo,
                  average_annual_age_increment = Some aa,
                  total_growth_performance = Some tg,
                  current_annual_increment = Some ca, mean_annual_increment = Some ma \<rparr>"
    unfolding interp_row_def Let_def upper_yield_class_def
    by (auto simp: bind_err_Inr)
  from assms(1) consider "f = dominant_height" | "f = average_height" | "f = dbh" | "f = taper"
    | "f = trees_per_ha" | "f = basal_area" | "f = volume_per_ha"
    | "f = average_annual_age_increment" | "f = total_growth_performance"
    | "f = current_annual_increment" | "f = mean_annual_increment"
    by (auto simp: measurement_fields_def)
  then show ?thesis
  proof cases
    case 1 then show ?thesis using plain [of dh] v r by simp
  next
    case 2 then show ?thesis using plain [of ah] v r by simp
  next
    case 3 then show ?thesis using plain [of db] v r by simp
  next
    case 4 then show ?thesis using plain [of tp] v r by simp
  next
    case 5 then show ?thesis using plain [of tr] v r by simp
  next
    case 6 then show ?thesis using plain [of ba] v r by simp
  next
    case 7 then show ?thesis using plain [of vo] v r by simp
  next
    case 8 then show ?thesis using plain [of aa] v r by simp
  next
    case 9 then show ?thesis using plain [of tg] v r by simp
  next
    case 10 then show ?thesis using safe [of ca] v r by simp
  next
    case 11 then show ?thesis using plain [of ma] v r by simp
  qed
qed

lemma interp_row_complete: "(\<exists>r. interp_row t p = Inr r) \<longleftrightarrow> pair_complete p"
proof
  let ?xp = "(lower_yield_class t, upper_yield_class t)"
  assume "\<exists>r. interp_row t p = Inr r"
  then have "\<forall>f \<in> set unguarded_fields. \<exists>v. np_interp t ?xp (f (fst p), f (snd p)) = Inr v"
    unfolding interp_row_def Let_def unguarded_fields_def
    by (auto simp: bind_err_Inr)
  then show "pair_complete p"
    by (simp add: pair_complete_def list_all_iff np_interp_Inr_iff)
next
  let ?xp = "(lower_yield_class t, upper_yield_class t)"
  assume "pair_complete p"
  then have ok: "\<exists>v. np_interp t ?xp (f (fst p), f (snd p)) = Inr v"
    if "f \<in> set unguarded_fields" for f
    using that by (simp add: pair_complete_def list_all_iff np_interp_Inr_iff)
  have "\<exists>v. np_interp t ?xp (dominant_height (fst p), dominant_height (snd p)) = Inr v"
       "\<exists>v. np_interp t ?xp (average_height (fst p), average_height (snd p)) = Inr v"
       "\<exists>v. np_interp t ?xp (dbh (fst p), dbh (snd p)) = Inr v"
       "\<exists>v. np_interp t ?xp (taper (fst p), taper (snd p)) = Inr v"
       "\<exists>v. np_interp t ?xp (trees_per_ha (fst p), trees_per_ha (snd p)) = Inr v"
       "\<exists>v. np_interp t ?xp (basal_area (fst p), basal_area (snd p)) = Inr v"
       "\<exists>v. np_interp t ?xp (volume_per_ha (fst p), volume_per_ha (snd p)) = Inr v"
       "\<exists>v. np_interp t ?xp (average_annual_age_increment (fst p),
                              average_annual_age_increment (snd p)) = Inr v"
       "\<exists>v. np_interp t ?xp (total_growth_performance (fst p),
                              total_growth_performance (snd p)) = Inr v"
       "\<exists>v. np_interp t ?xp (mean_annual_increment (fst p), mean_annual_increment (snd p)) = Inr v"
    by (rule ok, simp add: unguarded_fields_def)+
  moreover have "\<exists>v. np_interp t ?xp (Some (safe_float (current_annual_increment (fst p))),
                         Some (safe_float (current_annual_increment (snd p)))) = Inr v"
    by (simp add: np_interp_Some)
  ultimately obtain dh ah db tp tr ba vo aa tg ma ca where
       "np_interp t ?xp (dominant_height (fst p), dominant_height (snd p)) = Inr dh"
       "np_interp t ?xp (average_height (fst p), average_height (snd p)) = Inr ah"
       "np_interp t ?xp (dbh (fst p), dbh (snd p)) = Inr db"
       "np_interp t ?xp (taper (fst p), taper (snd p)) = Inr tp"
       "np_interp t ?xp (trees_per_ha (fst p), trees_per_ha (snd p)) = Inr tr"
       "np_interp t ?xp (basal_area (fst p), basal_area (snd p)) = Inr ba"
       "np_interp t ?xp (volume_per_ha (fst p), volume_per_ha (snd p)) = Inr vo"
       "np_interp t ?xp (average_annual_age_increment (fst p),
                         average_annual_age_increment (snd p)) = Inr aa"
       "np_interp t ?xp (total_growth_performance (fst p),
                         total_growth_performance (snd p)) = Inr tg"
       "np_interp t ?xp (mean_annual_increment (fst p), mean_annual_increment (snd p)) = Inr ma"
       "np_interp t ?xp (Some (safe_float (current_annual_increment (fst p))),
                         Some (safe_float (current_annual_increment (snd p)))) = Inr ca"
    by blast
  then show "\<exists>r. interp_row t p = Inr r"
    unfolding interp_row_def Let_def
    by (simp add: bind_err_def)
qed

subsection \<open>The interpolator\<close>

lemma interp_loop_Inr:
  "interp_loop t ps acc = Inr r \<Longrightarrow>
     \<exists>rs. r = acc @ rs \<and> list_all2 (\<lambda>p r. interp_row t p = Inr r) ps rs"
proof (induction ps arbitrary: acc)
  case Nil
  then show ?case by simp
next
  case (Cons p ps)
  from Cons.prems obtain x where x: "interp_row t p = Inr x"
    and rest: "interp_loop t ps (acc @ [x]) = Inr r"
    by (auto split: sum.splits)
  from Cons.IH [OF rest] obtain rs where "r = (acc @ [x]) @ rs"
    and "list_all2 (\<lambda>p r. interp_row t p = Inr r) ps rs"
    by blast
  with x have "r = acc @ (x # rs)
      \<and> list_all2 (\<lambda>p r. interp_row t p = Inr r) (p # ps) (x # rs)"
    by simp
  then show ?case by blast
qed

lemma interp_loop_Inl: "interp_loop t ps acc = Inl e \<Longrightarrow> e = CannotCast"
  by (induction ps arbitrary: acc) (auto split: sum.splits dest: interp_row_Inl)

lemma interp_loop_ok:
  "list_all pair_complete ps \<Longrightarrow> \<exists>r. interp_loop t ps acc = Inr r"
proof (induction ps arbitrary: acc)
  case Nil
  then show ?case by simp
next
  case (Cons p ps)
  then obtain x where "interp_row t p = Inr x"
    using interp_row_complete [of t p] by auto
  with Cons show ?case by simp
qed

lemma interp_loop_incomplete:
  "\<not> list_all pair_complete ps \<Longrightarrow> interp_loop t ps acc = Inl CannotCast"
proof (induction ps arbitrary: acc)
  case Nil
  then show ?case by simp
next
  case (Cons p ps)
  show ?case
  proof (cases "interp_row t p")
    case (Inl e)
    then show ?thesis by (simp add: interp_row_Inl)
  next
    case (Inr x)
    then have "pair_complete p"
      using interp_row_complete [of t p] by blast
    with Cons.prems have "\<not> list_all pair_complete ps" by simp
    from Cons.IH [OF this] Inr show ?thesis by simp
  qed
qed

lemma interpolated_found:
  assumes "get_yield_table_of_class accepts meta_csv data_csv i (lower_yield_class target) = Inr lo"
      and "get_yield_table_of_class accepts meta_csv data_csv i (lower_yield_class target + 1) = Inr up"
  shows "get_interpolated_yield_table accepts meta_csv data_csv i target =
           (case interp_loop target (zip lo up) [] of Inl e \<Rightarrow> Inl e
            | Inr tb \<Rightarrow> Inr \<lparr> yield_class = FloatKey target, rows = tb \<rparr>)"
  using assms by (simp add: get_interpolated_yield_table_def upper_yield_class_def)

lemma interpolated_Inr:
  assumes "get_interpolated_yield_table accepts meta_csv data_csv i target = Inr res"
  shows "\<exists>lo up. get_yield_table_of_class accepts meta_csv data_csv i (lower_yield_class target) = Inr lo
           \<and> get_yield_table_of_class accepts meta_csv data_csv i (lower_yield_class target + 1) = Inr up
           \<and> yield_class res = FloatKey target
           \<and> list_all2 (\<lambda>p r. interp_row target p = Inr r) (zip lo up) (rows res)"
proof -
  from assms obtain lo up tb
    where lo: "get_yield_table_of_class accepts meta_csv data_csv i (lower_yield_class target) = Inr lo"
      and up: "get_yield_table_of_class accepts meta_csv data_csv i (lower_yield_class target + 1) = Inr up"
      and tb: "interp_loop target (zip lo up) [] = Inr tb"
      and res: "res = \<lparr> yield_class = FloatKey target, rows = tb \<rparr>"
    by (auto simp: get_interpolated_yield_table_def upper_yield_class_def split: sum.splits)
  from interp_loop_Inr [OF tb]
  have "list_all2 (\<lambda>p r. interp_row target p = Inr r) (zip lo up) tb"
    by simp
  with lo up res show ?thesis by simp
qed

lemma interpolated_Inl:
  assumes "get_yield_table accepts meta_csv data_csv i = Inr t"
      and "get_interpolated_yield_table accepts meta_csv data_csv i target = Inl e"
  shows "(\<not> has_class t (lower_yield_class target)
            \<and> e = ClassNotFound (lower_yield_class target) i)
       \<or> (has_class t (lower_yield_class target) \<and> \<not> has_class t (lower_yield_class target + 1)
            \<and> e = ClassNotFound (lower_yield_class target + 1) i)
       \<or> (has_class t (lower_yield_class target) \<and> has_class t (lower_yield_class target + 1)
            \<and> e = CannotCast)"
proof (cases "has_class t (lower_yield_class target)")
  case False
  with assms(2) of_class_has_class(2) [OF assms(1) False] show ?thesis
    by (simp add: get_interpolated_yield_table_def)
next
  case True
  then obtain lo
    where lo: "get_yield_table_of_class accepts meta_csv data_csv i (lower_yield_class target) = Inr lo"
    using of_class_has_class(1) [OF assms(1)] by blast
  show ?thesis
  proof (cases "has_class t (lower_yield_class target + 1)")
    case False
    with assms(2) lo True of_class_has_class(2) [OF assms(1) False] show ?thesis
      by (simp add: get_interpolated_yield_table_def upper_yield_class_def)
  next
    case up: True
    then obtain u
      where u: "get_yield_table_of_class accepts meta_csv data_csv i (lower_yield_class target + 1) = Inr u"
      using of_class_has_class(1) [OF assms(1)] by blast
    from assms(2) have "interp_loop target (zip lo u) [] = Inl e"
      unfolding interpolated_found [OF lo u] by (auto split: sum.splits)
    then have "e = CannotCast"
      by (rule interp_loop_Inl)
    with True up show ?thesis by simp
  qed
qed

lemma interpolated_missing:
  assumes "get_yield_table accepts meta_csv data_csv i = Inr t"
  shows "\<not> has_class t (lower_yield_class target) \<Longrightarrow>
           get_interpolated_yield_table accepts meta_csv data_csv i target
             = Inl (ClassNotFound (lower_yield_class target) i)"
    and "has_class t (lower_yield_class target) \<Longrightarrow>
         \<not> has_class t (lower_yield_class target + 1) \<Longrightarrow>
           get_interpolated_yield_table accepts meta_csv data_csv i target
             = Inl (ClassNotFound (lower_yield_class target + 1) i)"
proof -
  assume a: "\<not> has_class t (lower_yield_class target)"
  show "get_interpolated_yield_table accepts meta_csv data_csv i target
             = Inl (ClassNotFound (lower_yield_class target) i)"
    using of_class_has_class(2) [OF assms a]
    by (simp add: get_interpolated_yield_table_def)
next
  assume a: "has_class t (lower_yield_class target)"
    and b: "\<not> has_class t (lower_yield_class target + 1)"
  from a obtain lo
    where lo: "get_yield_table_of_class accepts meta_csv data_csv i (lower_yield_class target) = Inr lo"
    using of_class_has_class(1) [OF assms] by blast
  show "get_interpolated_yield_table accepts meta_csv data_csv i target
             = Inl (ClassNotFound (lower_yield_class target + 1) i)"
    using of_class_has_class(2) [OF assms b] lo
    by (simp add: get_interpolated_yield_table_def upper_yield_class_def)
qed

subsection \<open>The example\<close>

lemma example_list_meta:
  "get_yield_tables_meta example_accepts example_meta_csv example_data_csv = Inr example_meta_list"
  by code_simp

lemma example_table_loaded:
  "get_yield_table example_accepts example_meta_csv example_data_csv 1 = Inr example_table"
  by code_simp

lemma example_lower: "lower_yield_class (13 / 2) = 6"
  by (simp add: lower_yield_class_def int_of_float_def)

lemma example_upper: "upper_yield_class (13 / 2) = 7"
  by (simp add: upper_yield_class_def example_lower)

lemma example_class_6_at_6:
  "get_yield_table_of_class example_accepts example_meta_csv example_data_csv 1 6 = Inr example_class_6"
  by (simp add: of_class_find [OF example_table_loaded] example_table_def key_eq_def)

lemma example_class_7_at_7:
  "get_yield_table_of_class example_accepts example_meta_csv example_data_csv 1 7 = Inr example_class_7"
  by (simp add: of_class_find [OF example_table_loaded] example_table_def key_eq_def)

lemma example_pairs_complete: "list_all pair_complete (zip example_class_6 example_class_7)"
  by code_simp

lemma example_lengths: "length example_class_6 = 3" "length example_class_7 = 4"
  by (simp_all add: example_class_6_def example_class_7_def)

lemma example_dominant_heights:
  "dominant_height (example_class_6 ! 0) = Some 5"
  "dominant_height (example_class_6 ! 1) = Some 8"
  "dominant_height (example_class_7 ! 0) = Some 6"
  "dominant_height (example_class_7 ! 1) = Some 9"
  by (simp_all add: example_class_6_def example_class_7_def example_row_def)

lemma example_has_class_7: "has_class example_table 7"
  by (simp add: has_class_def example_table_def key_eq_def)

lemma example_has_no_class_8: "\<not> has_class example_table 8"
  by (simp add: has_class_def example_table_def key_eq_def)




lemma example_floor_minus_half: "\<lfloor>- 1 / 2 :: real\<rfloor> = - 1"
  by linarith

lemma example_negative_table:
  "map_sum (\<lambda>e. e) (\<lambda>t. (has_class t (- 1), has_class t (- 1 + 1)))
      (get_yield_table example_accepts example_meta_csv example_negative_data_csv 1)
     = Inr (True, True)"
  "get_interpolated_yield_table example_accepts example_meta_csv example_negative_data_csv 1
      (- 1 / 2) = Inl (ClassNotFound 1 1)"
  by code_simp+

lemma example_zero_table:
  "map_sum (\<lambda>e. e) (\<lambda>t. has_class t (- 1))
      (get_yield_table example_accepts example_meta_csv example_zero_data_csv 1)
     = Inr False"
  "map_sum (\<lambda>e. e) (\<lambda>c. map dominant_height (rows c))
      (get_interpolated_yield_table example_accepts example_meta_csv example_zero_data_csv 1
         (- 1 / 2)) = Inr [Some 5]"
  by code_simp+

lemma example_bad_meta_found:
  "\<exists>m. get_yield_table_meta example_accepts example_meta_csv example_bad_data_csv 1 = Inr m"
proof -
  have "\<not> isl (get_yield_table_meta example_accepts example_meta_csv example_bad_data_csv 1)"
    by code_simp
  then show ?thesis
    by (cases "get_yield_table_meta example_accepts example_meta_csv example_bad_data_csv 1") simp_all
qed

lemma example_py_int: "py_int ''1'' = Some 1" "py_int ''2'' = Some 2" "py_int ''abc'' = None"
  by code_simp+

lemma example_bad_ids: "\<forall>r \<in> set example_bad_data_csv. py_int (col_id r) \<noteq> None"
  by (simp add: example_bad_data_csv_def example_data_row_def example_py_int)

lemma example_bad_kept:
  "filter (\<lambda>r. py_int (col_id r) = Some 1) example_bad_data_csv
     = [example_data_row ''1'' ''6'' ''10'' ''5.0'' []]
       @ example_data_row ''1'' ''6'' ''abc'' ''8.0'' ''0.4''
       # [example_data_row ''1'' ''7'' ''10'' ''6.0'' []]"
  by (simp add: example_bad_data_csv_def example_data_row_def example_py_int)

lemma example_bad_pre:
  "\<forall>r \<in> set [example_data_row ''1'' ''6'' ''10'' ''5.0'' []].
      (\<exists>k. parse_yield_class (col_yield_class r) = Inr k) \<and> (\<exists>y. make_row r = Inr y)"
proof -
  have "\<not> isl (parse_yield_class (col_yield_class (example_data_row ''1'' ''6'' ''10'' ''5.0'' [])))"
    and "\<not> isl (make_row (example_data_row ''1'' ''6'' ''10'' ''5.0'' []))"
    by code_simp+
  then show ?thesis
    by (simp add: isl_def) (metis sum.exhaust)
qed

lemma example_bad_key:
  "\<exists>k. parse_yield_class (col_yield_class (example_data_row ''1'' ''6'' ''abc'' ''8.0'' ''0.4''))
         = Inr k"
proof -
  have "parse_yield_class (col_yield_class (example_data_row ''1'' ''6'' ''abc'' ''8.0'' ''0.4''))
          = Inr (IntKey 6)"
    by code_simp
  then show ?thesis ..
qed

lemma example_bad_age:
  "col_age (example_data_row ''1'' ''6'' ''abc'' ''8.0'' ''0.4'') = Some ''abc''"
  by (simp add: example_data_row_def)

lemma example_no_999: "999 \<notin> meta_id ` set example_meta_list"
  by (simp add: example_meta_list_def example_meta_def)

section \<open>The claims\<close>

text \<open>
  C1, on the example with no dominant height at age 30 in class 6, at the target 6.5:
  the absent value reaches \<^verbatim>\<open>np.interp\<close> as \<^verbatim>\<open>None\<close>, the call raises a \<^verbatim>\<open>TypeError\<close>, and
  the handler, which catches \<^verbatim>\<open>ValueError\<close> only, does not answer it.  On the example
  where only cells of the current annual increment are empty the call returns, and the
  current annual increment, which goes through \<open>safe_float\<close>, is interpolated with
  0.0 for an absent value: 0.0 from two absent values, 0.35 from an absent value and 0.7.
\<close>

theorem absent_measurement_raises_TypeError:
  "get_interpolated_yield_table example_accepts example_meta_csv example_sparse_data_csv 1 (13 / 2)
     = Inl CannotCast
   \<and> exc_class_of CannotCast = TypeError
   \<and> read_interpolated_yield_table_data example_accepts example_meta_csv example_sparse_data_csv 1 (13 / 2)
     = Uncaught CannotCast
   \<and> map_sum (\<lambda>e. e) (\<lambda>c. map current_annual_increment (rows c))
      (get_interpolated_yield_table example_accepts example_meta_csv example_data_csv 1 (13 / 2))
     = Inr [Some 0, Some (1 / 2), Some (7 / 20)]"
  by code_simp

text \<open>
  C2, as the code has it: the lower bracketing class is \<^verbatim>\<open>int(target)\<close>, which truncates
  towards zero.  It is \<open>floor(target)\<close> for every target that is not negative or is
  integral, and \<open>floor(target) + 1\<close> for a negative fractional target; the upper class
  is the lower class plus one.
\<close>

theorem bracket_classes_truncate:
  "(0 \<le> t \<or> t \<in> \<int> \<longrightarrow>
      lower_yield_class t = \<lfloor>t\<rfloor> \<and> upper_yield_class t = \<lfloor>t\<rfloor> + 1)
   \<and> (t < 0 \<and> t \<notin> \<int> \<longrightarrow>
      lower_yield_class t = \<lfloor>t\<rfloor> + 1 \<and> upper_yield_class t = \<lfloor>t\<rfloor> + 2)"
  using ceiling_int [of t] ceiling_nonint [of t]
  by (simp add: lower_yield_class_def upper_yield_class_def int_of_float_def)

text \<open>Truncation at \<open>6.5\<close> and at \<open>-0.5\<close>: the classes are 6, 7 and 0, 1.\<close>

theorem bracket_classes_truncate_witness:
  "lower_yield_class (13 / 2) = 6 \<and> upper_yield_class (13 / 2) = 7
   \<and> lower_yield_class (- 1 / 2) = 0 \<and> upper_yield_class (- 1 / 2) = 1"
proof -
  have a: "\<lfloor>13 / 2 :: real\<rfloor> = 6" by simp
  have b: "\<lfloor>- 1 / 2 :: real\<rfloor> = - 1" by linarith
  have c: "(0::real) \<le> 13 / 2" by simp
  have d: "(- 1 / 2 :: real) < 0" by simp
  from bracket_classes_truncate [of "13 / 2"] bracket_classes_truncate [of "- 1 / 2"]
    a b c d minus_half_not_int
  show ?thesis by simp
qed

text \<open>C2 as stated fails at the target \<open>-0.5\<close>: the lower class is 0, not
  \<open>floor(-0.5) = -1\<close>.\<close>

theorem bracket_floor_counterexample:
  "lower_yield_class (- 1 / 2) \<noteq> \<lfloor>(- 1 / 2)::real\<rfloor>"
proof -
  have "\<lceil>(- 1 / 2)::real\<rceil> = 0" by linarith
  moreover have "\<lfloor>(- 1 / 2)::real\<rfloor> = - 1" by linarith
  ultimately show ?thesis
    by (simp add: lower_yield_class_def int_of_float_def)
qed




text \<open>
  C4, as the code has it: the lower bracketing class is \<^verbatim>\<open>int(target)\<close>, the target
  truncated towards zero.  On a table that loads, \<open>get_interpolated\<close> fails with a
  \<open>ClassNotFound\<close> error exactly when that class or that class plus one is not a class
  of the table; the error names the first of the two that is missing, and the table id.
  An integral target whose own class exists fails on the next class when that is
  missing.  The lower bracketing class is \<open>floor(target)\<close> for a target that is not
  negative or is integral, and \<open>floor(target) + 1\<close> for a negative fractional target.
\<close>

theorem interpolated_not_found_iff:
  assumes "get_yield_table accepts meta_csv data_csv i = Inr t"
  shows "(get_interpolated_yield_table accepts meta_csv data_csv i target
            = Inl (ClassNotFound (lower_yield_class target) i)
          \<longleftrightarrow> \<not> has_class t (lower_yield_class target))
       \<and> (get_interpolated_yield_table accepts meta_csv data_csv i target
            = Inl (ClassNotFound (lower_yield_class target + 1) i)
          \<longleftrightarrow> has_class t (lower_yield_class target)
              \<and> \<not> has_class t (lower_yield_class target + 1))
       \<and> ((\<exists>c j. get_interpolated_yield_table accepts meta_csv data_csv i target
                     = Inl (ClassNotFound c j))
          \<longleftrightarrow> \<not> has_class t (lower_yield_class target)
              \<or> \<not> has_class t (lower_yield_class target + 1))
       \<and> (\<forall>n. target = real_of_int n \<and> has_class t n \<and> \<not> has_class t (n + 1)
              \<longrightarrow> get_interpolated_yield_table accepts meta_csv data_csv i target
                    = Inl (ClassNotFound (n + 1) i))
       \<and> (0 \<le> target \<or> target \<in> \<int> \<longrightarrow> lower_yield_class target = \<lfloor>target\<rfloor>)
       \<and> (target < 0 \<and> target \<notin> \<int> \<longrightarrow> lower_yield_class target = \<lfloor>target\<rfloor> + 1)"
proof -
  let ?lo = "lower_yield_class target"
  let ?r = "get_interpolated_yield_table accepts meta_csv data_csv i target"
  note missing = interpolated_missing [OF assms, of target]
  have found: "?r \<noteq> Inl (ClassNotFound c j)" if "has_class t ?lo" "has_class t (?lo + 1)" for c j
    using interpolated_Inl [OF assms, of target "ClassNotFound c j"] that by auto
  have a: "?r = Inl (ClassNotFound ?lo i) \<longleftrightarrow> \<not> has_class t ?lo"
  proof (cases "has_class t ?lo")
    case False
    with missing(1) show ?thesis by simp
  next
    case True
    show ?thesis
    proof (cases "has_class t (?lo + 1)")
      case False
      with True missing(2) show ?thesis by simp
    next
      case up: True
      with True found show ?thesis by simp
    qed
  qed
  have b: "?r = Inl (ClassNotFound (?lo + 1) i)
             \<longleftrightarrow> has_class t ?lo \<and> \<not> has_class t (?lo + 1)"
  proof (cases "has_class t ?lo")
    case False
    with missing(1) show ?thesis by simp
  next
    case True
    show ?thesis
    proof (cases "has_class t (?lo + 1)")
      case False
      with True missing(2) show ?thesis by simp
    next
      case up: True
      with True found show ?thesis by simp
    qed
  qed
  have c: "(\<exists>c j. ?r = Inl (ClassNotFound c j))
             \<longleftrightarrow> \<not> has_class t ?lo \<or> \<not> has_class t (?lo + 1)"
    using a b found by blast
  have d: "?r = Inl (ClassNotFound (n + 1) i)"
    if "target = real_of_int n \<and> has_class t n \<and> \<not> has_class t (n + 1)" for n
    using that b by (simp add: lower_yield_class_of_int)
  have e: "0 \<le> target \<or> target \<in> \<int> \<longrightarrow> lower_yield_class target = \<lfloor>target\<rfloor>"
    using ceiling_int [of target] by (simp add: lower_yield_class_def int_of_float_def)
  have f: "target < 0 \<and> target \<notin> \<int> \<longrightarrow> lower_yield_class target = \<lfloor>target\<rfloor> + 1"
    using ceiling_nonint [of target] by (simp add: lower_yield_class_def int_of_float_def)
  from a b c d e f show ?thesis by blast
qed

text \<open>The example table has class 7 and no class 8: the target 7 is not found.\<close>

theorem interpolated_not_found_iff_witness:
  "get_yield_table example_accepts example_meta_csv example_data_csv 1 = Inr example_table
   \<and> has_class example_table 7 \<and> \<not> has_class example_table 8
   \<and> get_interpolated_yield_table example_accepts example_meta_csv example_data_csv 1 7
       = Inl (ClassNotFound 8 1)"
proof -
  have "lower_yield_class 7 = 7"
    using lower_yield_class_of_int [of 7] by simp
  with interpolated_not_found_iff [OF example_table_loaded, of 7]
    example_has_class_7 example_has_no_class_8 example_table_loaded
  show ?thesis by simp
qed

text \<open>
  C4 as stated, with the lower bracketing class \<open>floor(target)\<close>, fails at the target
  \<open>-0.5\<close> in both directions.  On the table with the classes -1 and 0 both
  \<open>floor(-0.5)\<close> and \<open>floor(-0.5) + 1\<close> are classes of the table, and the call fails
  for the class 1.  On the table with the classes 0 and 1, \<open>floor(-0.5)\<close> is no class
  of the table, and the call returns.
\<close>

theorem interpolated_not_found_floor_counterexample:
  "map_sum (\<lambda>e. e)
      (\<lambda>t. (has_class t \<lfloor>- 1 / 2 :: real\<rfloor>, has_class t (\<lfloor>- 1 / 2 :: real\<rfloor> + 1)))
      (get_yield_table example_accepts example_meta_csv example_negative_data_csv 1)
     = Inr (True, True)
   \<and> get_interpolated_yield_table example_accepts example_meta_csv example_negative_data_csv 1
        (- 1 / 2) = Inl (ClassNotFound 1 1)
   \<and> map_sum (\<lambda>e. e) (\<lambda>t. has_class t \<lfloor>- 1 / 2 :: real\<rfloor>)
      (get_yield_table example_accepts example_meta_csv example_zero_data_csv 1)
     = Inr False
   \<and> map_sum (\<lambda>e. e) (\<lambda>c. map dominant_height (rows c))
      (get_interpolated_yield_table example_accepts example_meta_csv example_zero_data_csv 1
         (- 1 / 2)) = Inr [Some 5]"
  using example_negative_table example_zero_table
  by (simp only: example_floor_minus_half)

text \<open>
  C5: for a target strictly between the classes \<open>L\<close> and \<open>L + 1\<close> of a table, every
  measurement field of every row of a result lies between the values of the same field
  in the same row of the two classes, when both are present.  For \<open>L\<close> not negative
  and rows that have all their measurements there is a result.  With the dominant
  heights 5.0, 8.0 in class 6 and 6.0, 9.0 in class 7, a result for the target 6.5 has
  5.5 in row 0 and 8.5 in row 1.
\<close>

theorem interpolated_values_between_bracketing_classes:
  assumes lo: "get_yield_table_of_class accepts meta_csv data_csv i L = Inr lo_rows"
      and up: "get_yield_table_of_class accepts meta_csv data_csv i (L + 1) = Inr up_rows"
      and between: "real_of_int L < target" "target < real_of_int L + 1"
  shows "(\<forall>res n f a b.
            get_interpolated_yield_table accepts meta_csv data_csv i target = Inr res
            \<and> n < length (rows res) \<and> n < length lo_rows \<and> n < length up_rows
            \<and> f \<in> set measurement_fields
            \<and> f (lo_rows ! n) = Some a \<and> f (up_rows ! n) = Some b
            \<longrightarrow> (\<exists>v. f (rows res ! n) = Some v \<and> min a b \<le> v \<and> v \<le> max a b))
       \<and> (0 \<le> L \<and> list_all pair_complete (zip lo_rows up_rows) \<longrightarrow>
            (\<exists>res. get_interpolated_yield_table accepts meta_csv data_csv i target = Inr res
                  \<and> length (rows res) = min (length lo_rows) (length up_rows)))
       \<and> (\<forall>res. L = 6 \<and> target = 13 / 2
            \<and> get_interpolated_yield_table accepts meta_csv data_csv i target = Inr res
            \<and> 2 \<le> length (rows res)
            \<and> dominant_height (lo_rows ! 0) = Some 5
            \<and> dominant_height (lo_rows ! 1) = Some 8
            \<and> dominant_height (up_rows ! 0) = Some 6
            \<and> dominant_height (up_rows ! 1) = Some 9
            \<longrightarrow> dominant_height (rows res ! 0) = Some (11 / 2)
              \<and> dominant_height (rows res ! 1) = Some (17 / 2))"
proof -
  have rows_nonneg: "list_all2 (\<lambda>p r. interp_row target p = Inr r) (zip lo_rows up_rows) (rows res)"
    if "0 \<le> L" "get_interpolated_yield_table accepts meta_csv data_csv i target = Inr res" for res
  proof -
    have low: "lower_yield_class target = L"
      using between that(1) by (simp add: lower_between_nonneg)
    from interpolated_Inr [OF that(2)] lo up show ?thesis
      by (auto simp: low)
  qed
  have bound: "\<exists>v. f (rows res ! n) = Some v \<and> min a b \<le> v \<and> v \<le> max a b"
    if h: "get_interpolated_yield_table accepts meta_csv data_csv i target = Inr res
            \<and> n < length (rows res) \<and> n < length lo_rows \<and> n < length up_rows
            \<and> f \<in> set measurement_fields
            \<and> f (lo_rows ! n) = Some a \<and> f (up_rows ! n) = Some b" for res n f a b
  proof -
    from h have f: "f \<in> set measurement_fields" by simp
    from interpolated_Inr [of accepts meta_csv data_csv i target res] h obtain l u
      where l: "get_yield_table_of_class accepts meta_csv data_csv i (lower_yield_class target) = Inr l"
        and u: "get_yield_table_of_class accepts meta_csv data_csv i (lower_yield_class target + 1) = Inr u"
        and all: "list_all2 (\<lambda>p r. interp_row target p = Inr r) (zip l u) (rows res)"
      by blast
    from all have "length (rows res) = min (length l) (length u)"
      by (simp add: list_all2_conv_all_nth)
    with h have n: "n < length l" "n < length u"
      by simp_all
    with all h have row: "interp_row target (l ! n, u ! n) = Inr (rows res ! n)"
      by (simp add: list_all2_conv_all_nth)
    from interp_row_field [OF f row] obtain y0 y1 v
      where val: "np_interp target (lower_yield_class target, lower_yield_class target + 1) (y0, y1)
                    = Inr v"
        and fv: "f (rows res ! n) = Some v"
        and y0: "\<forall>a. f (l ! n) = Some a \<longrightarrow> y0 = Some a"
        and y1: "\<forall>b. f (u ! n) = Some b \<longrightarrow> y1 = Some b"
      by blast
    show ?thesis
    proof (cases "0 \<le> L")
      case True
      then have low: "lower_yield_class target = L"
        using between by (simp add: lower_between_nonneg)
      from l u lo up have "l = lo_rows" "u = up_rows"
        by (simp_all add: low)
      with y0 y1 h have "y0 = Some a" "y1 = Some b"
        by simp_all
      with val np_interp_between [of target L a b v] fv show ?thesis
        by (simp add: low)
    next
      case False
      then have low: "lower_yield_class target = L + 1"
        using between by (simp add: lower_between_neg)
      from l up have "l = up_rows"
        by (simp add: low)
      with y0 h have "y0 = Some b"
        by simp
      moreover have "target < real_of_int (L + 1)"
        using between by simp
      ultimately have "v = b"
        using val np_interp_left [of target "L + 1" b y1 v] by (simp add: low)
      with fv show ?thesis by simp
    qed
  qed
  have exist: "\<exists>res. get_interpolated_yield_table accepts meta_csv data_csv i target = Inr res
                  \<and> length (rows res) = min (length lo_rows) (length up_rows)"
    if "0 \<le> L \<and> list_all pair_complete (zip lo_rows up_rows)"
  proof -
    from that have low: "lower_yield_class target = L"
      using between by (simp add: lower_between_nonneg)
    from that interp_loop_ok [of "zip lo_rows up_rows" target "[]"]
    obtain tb where tb: "interp_loop target (zip lo_rows up_rows) [] = Inr tb"
      by blast
    then have res: "get_interpolated_yield_table accepts meta_csv data_csv i target
             = Inr \<lparr> yield_class = FloatKey target, rows = tb \<rparr>"
      using lo up by (simp add: get_interpolated_yield_table_def upper_yield_class_def low)
    from rows_nonneg [OF _ res] that
    have "length tb = min (length lo_rows) (length up_rows)"
      by (simp add: list_all2_conv_all_nth)
    with res show ?thesis by simp
  qed
  have scenario: "dominant_height (rows res ! 0) = Some (11 / 2)
              \<and> dominant_height (rows res ! 1) = Some (17 / 2)"
    if h: "L = 6 \<and> target = 13 / 2
            \<and> get_interpolated_yield_table accepts meta_csv data_csv i target = Inr res
            \<and> 2 \<le> length (rows res)
            \<and> dominant_height (lo_rows ! 0) = Some 5
            \<and> dominant_height (lo_rows ! 1) = Some 8
            \<and> dominant_height (up_rows ! 0) = Some 6
            \<and> dominant_height (up_rows ! 1) = Some 9" for res
  proof -
    from h have L: "0 \<le> L" and L6: "L = 6" and tg: "target = 13 / 2"
      and res: "get_interpolated_yield_table accepts meta_csv data_csv i target = Inr res"
      and len: "2 \<le> length (rows res)"
      by simp_all
    have low: "lower_yield_class (13 / 2) = 6" "upper_yield_class (13 / 2) = 7"
      by (simp_all add: lower_yield_class_def upper_yield_class_def int_of_float_def)
    from rows_nonneg [OF L res]
    have all: "list_all2 (\<lambda>p r. interp_row target p = Inr r) (zip lo_rows up_rows) (rows res)" .
    have row: "interp_row (13 / 2) (lo_rows ! n, up_rows ! n) = Inr (rows res ! n)" if "n < 2" for n
    proof -
      from all have "length (rows res) = min (length lo_rows) (length up_rows)"
        by (simp add: list_all2_conv_all_nth)
      with that len have "n < length lo_rows" "n < length up_rows"
        by simp_all
      with all show ?thesis
        by (simp add: list_all2_conv_all_nth tg)
    qed
    have dh: "dominant_height r = Some ((b - a) / 2 + a)"
      if "interp_row (13 / 2) (l, u) = Inr r" "dominant_height l = Some a"
         "dominant_height u = Some b" for l u r a b
    proof -
      from that(1) obtain v where "np_interp (13 / 2) (6, 7) (dominant_height l, dominant_height u)
                                     = Inr v" "dominant_height r = Some v"
        unfolding interp_row_def Let_def low by (auto simp: bind_err_Inr)
      with that(2,3) show ?thesis
        by (simp add: np_interp_Some)
    qed
    from h have v: "dominant_height (lo_rows ! 0) = Some 5" "dominant_height (lo_rows ! 1) = Some 8"
      "dominant_height (up_rows ! 0) = Some 6" "dominant_height (up_rows ! 1) = Some 9"
      by simp_all
    have "dominant_height (rows res ! 0) = Some (11 / 2)"
      using dh [OF row [of 0] v(1) v(3)] by simp
    moreover have "dominant_height (rows res ! 1) = Some (17 / 2)"
      using dh [OF row [of 1] v(2) v(4)] by simp
    ultimately show ?thesis by simp
  qed
  from bound exist scenario show ?thesis
    by blast
qed

text \<open>Classes 6 and 7 of the example at the target 6.5.\<close>

theorem interpolated_values_between_bracketing_classes_witness:
  "get_yield_table_of_class example_accepts example_meta_csv example_data_csv 1 6 = Inr example_class_6
   \<and> get_yield_table_of_class example_accepts example_meta_csv example_data_csv 1 (6 + 1) = Inr example_class_7
   \<and> real_of_int 6 < 13 / 2 \<and> (13 / 2 :: real) < real_of_int 6 + 1
   \<and> list_all pair_complete (zip example_class_6 example_class_7)
   \<and> dominant_height (example_class_6 ! 0) = Some 5
   \<and> dominant_height (example_class_7 ! 0) = Some 6
   \<and> (\<exists>res v. get_interpolated_yield_table example_accepts example_meta_csv example_data_csv 1 (13 / 2) = Inr res
          \<and> length (rows res) = 3
          \<and> dominant_height (rows res ! 0) = Some v \<and> 5 \<le> v \<and> v \<le> 6
          \<and> dominant_height (rows res ! 0) = Some (11 / 2)
          \<and> dominant_height (rows res ! 1) = Some (17 / 2))"
proof -
  have b: "real_of_int 6 < 13 / 2" "(13 / 2 :: real) < real_of_int 6 + 1"
    by simp_all
  have up: "get_yield_table_of_class example_accepts example_meta_csv example_data_csv 1 (6 + 1)
              = Inr example_class_7"
    using example_class_7_at_7 by simp
  note inst = interpolated_values_between_bracketing_classes [OF example_class_6_at_6 up b]
  have f: "dominant_height \<in> set measurement_fields"
    by (simp add: measurement_fields_def)
  from inst example_pairs_complete obtain res
    where res: "get_interpolated_yield_table example_accepts example_meta_csv example_data_csv 1 (13 / 2) = Inr res"
      and n: "length (rows res) = 3"
    by (auto simp: example_lengths)
  from inst res n example_lengths f example_dominant_heights(1,3)
  obtain v where v: "dominant_height (rows res ! 0) = Some v" "min 5 6 \<le> v" "v \<le> max 5 6"
    by (metis zero_less_numeral)
  from n have "2 \<le> length (rows res)" by simp
  with inst res example_dominant_heights
  have "dominant_height (rows res ! 0) = Some (11 / 2)
        \<and> dominant_height (rows res ! 1) = Some (17 / 2)"
    by blast
  with res n v have "\<exists>res v. get_interpolated_yield_table example_accepts example_meta_csv example_data_csv 1 (13 / 2) = Inr res
          \<and> length (rows res) = 3
          \<and> dominant_height (rows res ! 0) = Some v \<and> 5 \<le> v \<and> v \<le> 6
          \<and> dominant_height (rows res ! 0) = Some (11 / 2)
          \<and> dominant_height (rows res ! 1) = Some (17 / 2)"
    by auto
  with example_class_6_at_6 up b example_pairs_complete example_dominant_heights(1,3)
  show ?thesis by blast
qed

text \<open>
  C6: a table returned for \<open>id\<close> has the meta id \<open>id\<close>, and every row of every one of
  its yield classes is the \<open>YieldClassRow\<close> built from a record of the data file
  whose id cell converts to \<open>id\<close>.
\<close>

theorem table_rows_belong_to_table:
  assumes "get_yield_table accepts meta_csv data_csv i = Inr t"
  shows "meta_id t = i
       \<and> (\<forall>c \<in> set (yield_classes (data t)). \<forall>r \<in> set (rows c).
            \<exists>src_row \<in> set data_csv. py_int (col_id src_row) = Some i
                                   \<and> make_row src_row = Inr r)"
proof -
  let ?kept = "filter (\<lambda>r. py_int (col_id r) = Some i) data_csv"
  from get_yield_table_Inr [OF assms] obtain dct
    where loop: "group_loop ?kept [] = Inr dct" and id: "meta_id t = i"
      and cls: "yield_classes (data t) = map (\<lambda>p. \<lparr> yield_class = fst p, rows = snd p \<rparr>) dct"
    by blast
  from group_loop_pairs [OF loop] obtain ks ys
    where ks: "list_all2 (\<lambda>row k. parse_yield_class (col_yield_class row) = Inr k) ?kept ks"
      and ys: "list_all2 (\<lambda>row y. make_row row = Inr y) ?kept ys"
      and dct: "dct = group_pairs [] (zip ks ys)"
    by blast
  have origin: "\<exists>src_row \<in> set data_csv. py_int (col_id src_row) = Some i \<and> make_row src_row = Inr r"
    if "c \<in> set (yield_classes (data t))" and "r \<in> set (rows c)" for c r
  proof -
    from that(1) obtain e where e: "e \<in> set dct" and c: "c = \<lparr> yield_class = fst e, rows = snd e \<rparr>"
      unfolding cls by auto
    from group_pairs_entries [OF e [unfolded dct]] that(2)
    have "r \<in> snd ` set (zip ks ys)"
      by (auto simp: c)
    then have "r \<in> set ys"
      by (auto dest: set_zip_rightD)
    then obtain n where n: "n < length ys" "ys ! n = r"
      by (auto simp: in_set_conv_nth)
    from ys n have "n < length ?kept" "make_row (?kept ! n) = Inr r"
      by (auto simp: list_all2_conv_all_nth)
    moreover from this(1) have "?kept ! n \<in> set ?kept"
      by (rule nth_mem)
    ultimately show ?thesis
      by auto
  qed
  with id show ?thesis by blast
qed

text \<open>Table 1 of the example; the row of table 2 in the data file is in none of its classes.\<close>

theorem table_rows_belong_to_table_witness:
  "get_yield_table example_accepts example_meta_csv example_data_csv 1 = Inr example_table
   \<and> meta_id example_table = 1
   \<and> list_all (\<lambda>c. list_all (\<lambda>r.
          list_ex (\<lambda>src_row. py_int (col_id src_row) = Some 1 \<and> make_row src_row = Inr r)
            example_data_csv) (rows c))
        (yield_classes (data example_table))"
  using example_table_loaded table_rows_belong_to_table [OF example_table_loaded]
  by (simp only: list_all_iff list_ex_iff) blast

text \<open>
  C7: with \<open>ks\<close> the keys and \<open>ys\<close> the rows built from the kept records, in source
  order: a key is the integer when the cell converts with \<^verbatim>\<open>int\<close>, else the float;
  the keys of the result are pairwise different; they are the distinct key values in
  the order they are first seen; and the rows of a class are the rows of all kept
  records with that key value, in source order, none dropped.
\<close>

theorem table_groups_rows_by_yield_class:
  assumes "get_yield_table accepts meta_csv data_csv i = Inr t"
  shows "\<exists>ks ys.
           list_all2 (\<lambda>row k. parse_yield_class (col_yield_class row) = Inr k)
             (filter (\<lambda>r. py_int (col_id r) = Some i) data_csv) ks
         \<and> list_all2 (\<lambda>row y. make_row row = Inr y)
             (filter (\<lambda>r. py_int (col_id r) = Some i) data_csv) ys
         \<and> (\<forall>row \<in> set data_csv. \<forall>s. col_yield_class row = Some s \<longrightarrow>
               parse_yield_class (col_yield_class row) =
                 (case py_int s of Some n \<Rightarrow> Inr (IntKey n)
                  | None \<Rightarrow> (case py_float s of Some x \<Rightarrow> Inr (FloatKey x)
                             | None \<Rightarrow> Inl (InvalidLiteral s))))
         \<and> distinct (map (\<lambda>c. key_val (yield_class c)) (yield_classes (data t)))
         \<and> map (\<lambda>c. key_val (yield_class c)) (yield_classes (data t))
             = first_seen (map key_val ks)
         \<and> (\<forall>c \<in> set (yield_classes (data t)).
               yield_class c \<in> set ks
             \<and> rows c = map snd (filter (\<lambda>p. key_val (fst p) = key_val (yield_class c))
                                   (zip ks ys)))"
proof -
  let ?kept = "filter (\<lambda>r. py_int (col_id r) = Some i) data_csv"
  from get_yield_table_Inr [OF assms] obtain dct
    where loop: "group_loop ?kept [] = Inr dct"
      and cls: "yield_classes (data t) = map (\<lambda>p. \<lparr> yield_class = fst p, rows = snd p \<rparr>) dct"
    by blast
  from group_loop_pairs [OF loop] obtain ks ys
    where ks: "list_all2 (\<lambda>row k. parse_yield_class (col_yield_class row) = Inr k) ?kept ks"
      and ys: "list_all2 (\<lambda>row y. make_row row = Inr y) ?kept ys"
      and dct: "dct = group_pairs [] (zip ks ys)"
    by blast
  have len: "length ks = length ys"
    using ks ys by (simp add: list_all2_lengthD [symmetric])
  have keys: "map (\<lambda>c. key_val (yield_class c)) (yield_classes (data t)) = first_seen (map key_val ks)"
  proof -
    have "map (\<lambda>c. key_val (yield_class c)) (yield_classes (data t)) = dict_keys dct"
      by (simp add: cls dict_keys_def comp_def)
    also have "\<dots> = first_seen (map (\<lambda>p. key_val (fst p)) (zip ks ys))"
      by (simp add: dct group_pairs_keys)
    also have "map (\<lambda>p. key_val (fst p)) (zip ks ys) = map key_val (map fst (zip ks ys))"
      by simp
    also have "map fst (zip ks ys) = ks"
      using len by simp
    finally show ?thesis .
  qed
  have parse: "parse_yield_class (Some s) =
                 (case py_int s of Some n \<Rightarrow> Inr (IntKey n)
                  | None \<Rightarrow> (case py_float s of Some x \<Rightarrow> Inr (FloatKey x)
                             | None \<Rightarrow> Inl (InvalidLiteral s)))" for s
    by (simp add: parse_yield_class_def int_cell_def float_cell_def split: option.splits)
  have entries: "yield_class c \<in> set ks
             \<and> rows c = map snd (filter (\<lambda>p. key_val (fst p) = key_val (yield_class c)) (zip ks ys))"
    if "c \<in> set (yield_classes (data t))" for c
  proof -
    from that obtain e where e: "e \<in> set dct" and c: "c = \<lparr> yield_class = fst e, rows = snd e \<rparr>"
      unfolding cls by auto
    from group_pairs_entries [OF e [unfolded dct]]
    have "snd e = map snd (filter (\<lambda>p. key_val (fst p) = key_val (fst e)) (zip ks ys))"
      and "fst e \<in> fst ` set (zip ks ys)"
      by simp_all
    moreover from this(2) have "fst e \<in> set ks"
      by (auto dest: set_zip_leftD)
    ultimately show ?thesis
      by (simp add: c)
  qed
  have "distinct (map (\<lambda>c. key_val (yield_class c)) (yield_classes (data t)))"
    by (simp add: keys distinct_first_seen)
  with ks ys keys parse entries show ?thesis
    by (intro exI [of _ ks] exI [of _ ys]) simp
qed

text \<open>Table 1 of the example: the cell \<^verbatim>\<open>7.0\<close> joins class 7, whose two rows of age 30
  are both kept.\<close>

theorem table_groups_rows_by_yield_class_witness:
  "get_yield_table example_accepts example_meta_csv example_data_csv 1 = Inr example_table
   \<and> map yield_class (yield_classes (data example_table)) = [IntKey 6, IntKey 7]
   \<and> (\<exists>ks ys.
           list_all2 (\<lambda>row k. parse_yield_class (col_yield_class row) = Inr k)
             (filter (\<lambda>r. py_int (col_id r) = Some 1) example_data_csv) ks
         \<and> list_all2 (\<lambda>row y. make_row row = Inr y)
             (filter (\<lambda>r. py_int (col_id r) = Some 1) example_data_csv) ys
         \<and> distinct (map (\<lambda>c. key_val (yield_class c)) (yield_classes (data example_table)))
         \<and> map (\<lambda>c. key_val (yield_class c)) (yield_classes (data example_table))
             = first_seen (map key_val ks)
         \<and> (\<forall>c \<in> set (yield_classes (data example_table)).
               yield_class c \<in> set ks
             \<and> rows c = map snd (filter (\<lambda>p. key_val (fst p) = key_val (yield_class c))
                                   (zip ks ys))))"
proof -
  have "map yield_class (yield_classes (data example_table)) = [IntKey 6, IntKey 7]"
    by (simp add: example_table_def)
  with example_table_loaded table_groups_rows_by_yield_class [OF example_table_loaded]
  show ?thesis by blast
qed

text \<open>
  C8: when \<open>list_meta\<close> returns \<open>ms\<close>, \<open>get_meta id\<close> is the first element of \<open>ms\<close>
  with that id, and the error \<open>TableNotFound id\<close> when \<open>ms\<close> has none.
\<close>

theorem get_meta_is_first_match_of_list_meta:
  assumes "get_yield_tables_meta accepts meta_csv data_csv = Inr ms"
  shows "get_yield_table_meta accepts meta_csv data_csv i =
           (case find (\<lambda>m. meta_id m = i) ms of
              Some m \<Rightarrow> Inr m | None \<Rightarrow> Inl (TableNotFound i))
         \<and> (i \<in> meta_id ` set ms \<longrightarrow>
              (\<exists>m \<in> set ms. meta_id m = i \<and> get_yield_table_meta accepts meta_csv data_csv i = Inr m))
         \<and> (i \<notin> meta_id ` set ms \<longrightarrow>
              get_yield_table_meta accepts meta_csv data_csv i = Inl (TableNotFound i))"
proof -
  have eq: "get_yield_table_meta accepts meta_csv data_csv i = find_meta i ms"
    using assms by (simp add: get_yield_table_meta_def)
  have a: "find_meta i ms = (case find (\<lambda>m. meta_id m = i) ms of
              Some m \<Rightarrow> Inr m | None \<Rightarrow> Inl (TableNotFound i))"
    by (rule find_meta_find)
  have b: "i \<in> meta_id ` set ms \<longrightarrow> (\<exists>m \<in> set ms. meta_id m = i \<and> find_meta i ms = Inr m)"
    using find_meta_present [of i ms] find_meta_id [of i ms] by blast
  have c: "i \<notin> meta_id ` set ms \<longrightarrow> find_meta i ms = Inl (TableNotFound i)"
    using find_meta_absent [of i ms] by blast
  show ?thesis
    unfolding eq using a b c by blast
qed

text \<open>The example has two rows of id 1; \<open>get_meta 1\<close> is the first.  No row has id 999.\<close>

theorem get_meta_is_first_match_of_list_meta_witness:
  "get_yield_tables_meta example_accepts example_meta_csv example_data_csv = Inr example_meta_list
   \<and> get_yield_table_meta example_accepts example_meta_csv example_data_csv 1
       = Inr (example_meta 1 ''Fichte Hochgebirge'' (Some 1) (Some 10)
                (map fst measurement_columns))
   \<and> get_yield_table_meta example_accepts example_meta_csv example_data_csv 999 = Inl (TableNotFound 999)"
  using example_list_meta
    get_meta_is_first_match_of_list_meta [OF example_list_meta, of 1]
    get_meta_is_first_match_of_list_meta [OF example_list_meta, of 999]
  by (simp add: example_meta_list_def example_meta_def)

text \<open>
  C9: when both classes are found, a result has the target as its key and
  \<open>min (length lower) (length upper)\<close> rows; row \<open>n\<close> is built from row \<open>n\<close> of the
  lower and row \<open>n\<close> of the upper class, and has the age of the lower row.  There is a
  result exactly when every pair of rows has all the measurements that \<open>safe_float\<close>
  does not guard.
\<close>

theorem interpolated_rows_paired_by_position:
  assumes lo: "get_yield_table_of_class accepts meta_csv data_csv i (lower_yield_class target) = Inr lo"
      and up: "get_yield_table_of_class accepts meta_csv data_csv i (upper_yield_class target) = Inr up"
  shows "(\<forall>res. get_interpolated_yield_table accepts meta_csv data_csv i target = Inr res \<longrightarrow>
             yield_class res = FloatKey target
           \<and> length (rows res) = min (length lo) (length up)
           \<and> (\<forall>n < length (rows res).
                 interp_row target (lo ! n, up ! n) = Inr (rows res ! n)
               \<and> age (rows res ! n) = age (lo ! n)))
       \<and> ((\<exists>res. get_interpolated_yield_table accepts meta_csv data_csv i target = Inr res)
            \<longleftrightarrow> list_all pair_complete (zip lo up))"
proof -
  have up': "get_yield_table_of_class accepts meta_csv data_csv i (lower_yield_class target + 1) = Inr up"
    using up by (simp add: upper_yield_class_def)
  have shape: "yield_class res = FloatKey target
           \<and> length (rows res) = min (length lo) (length up)
           \<and> (\<forall>n < length (rows res).
                 interp_row target (lo ! n, up ! n) = Inr (rows res ! n)
               \<and> age (rows res ! n) = age (lo ! n))"
    if "get_interpolated_yield_table accepts meta_csv data_csv i target = Inr res" for res
  proof -
    from interpolated_Inr [OF that] lo up'
    have key: "yield_class res = FloatKey target"
      and all: "list_all2 (\<lambda>p r. interp_row target p = Inr r) (zip lo up) (rows res)"
      by auto
    from all have len: "length (rows res) = min (length lo) (length up)"
      by (simp add: list_all2_conv_all_nth)
    have "interp_row target (lo ! n, up ! n) = Inr (rows res ! n)
               \<and> age (rows res ! n) = age (lo ! n)" if "n < length (rows res)" for n
    proof -
      from that len have n: "n < length lo" "n < length up" by simp_all
      with all that have "interp_row target (lo ! n, up ! n) = Inr (rows res ! n)"
        by (simp add: list_all2_conv_all_nth)
      then show ?thesis
        using interp_row_age [of target "(lo ! n, up ! n)" "rows res ! n"] by simp
    qed
    with key len show ?thesis by blast
  qed
  have exist: "(\<exists>res. get_interpolated_yield_table accepts meta_csv data_csv i target = Inr res)
            \<longleftrightarrow> list_all pair_complete (zip lo up)"
  proof (cases "list_all pair_complete (zip lo up)")
    case True
    with interp_loop_ok [of "zip lo up" target "[]"] show ?thesis
      by (auto simp: interpolated_found [OF lo up'])
  next
    case False
    with interp_loop_incomplete [of "zip lo up" target "[]"] show ?thesis
      by (simp add: interpolated_found [OF lo up'])
  qed
  from shape exist show ?thesis by blast
qed

text \<open>Classes 6 and 7 of the example have 3 and 4 rows; the result has 3.\<close>

theorem interpolated_rows_paired_by_position_witness:
  "get_yield_table_of_class example_accepts example_meta_csv example_data_csv 1 (lower_yield_class (13 / 2))
     = Inr example_class_6
   \<and> get_yield_table_of_class example_accepts example_meta_csv example_data_csv 1 (upper_yield_class (13 / 2))
     = Inr example_class_7
   \<and> list_all pair_complete (zip example_class_6 example_class_7)
   \<and> (\<exists>res. get_interpolated_yield_table example_accepts example_meta_csv example_data_csv 1 (13 / 2) = Inr res
           \<and> yield_class res = FloatKey (13 / 2)
           \<and> length (rows res) = 3
           \<and> interp_row (13 / 2) (example_class_6 ! 2, example_class_7 ! 2) = Inr (rows res ! 2)
           \<and> age (rows res ! 2) = age (example_class_6 ! 2))"
proof -
  have lo: "get_yield_table_of_class example_accepts example_meta_csv example_data_csv 1
              (lower_yield_class (13 / 2)) = Inr example_class_6"
    using example_class_6_at_6 by (simp add: example_lower)
  have up: "get_yield_table_of_class example_accepts example_meta_csv example_data_csv 1
              (upper_yield_class (13 / 2)) = Inr example_class_7"
    using example_class_7_at_7 by (simp add: example_upper)
  note inst = interpolated_rows_paired_by_position [OF lo up]
  from inst example_pairs_complete obtain res
    where res: "get_interpolated_yield_table example_accepts example_meta_csv example_data_csv 1 (13 / 2) = Inr res"
    by blast
  with inst have key: "yield_class res = FloatKey (13 / 2)"
    and len: "length (rows res) = min (length example_class_6) (length example_class_7)"
    and all: "\<forall>n < length (rows res).
                 interp_row (13 / 2) (example_class_6 ! n, example_class_7 ! n) = Inr (rows res ! n)
               \<and> age (rows res ! n) = age (example_class_6 ! n)"
    by blast+
  from len have len3: "length (rows res) = 3"
    by (simp add: example_lengths)
  with all have "interp_row (13 / 2) (example_class_6 ! 2, example_class_7 ! 2) = Inr (rows res ! 2)
               \<and> age (rows res ! 2) = age (example_class_6 ! 2)"
    by simp
  with lo up example_pairs_complete res key len3 show ?thesis
    by blast
qed

text \<open>
  C10: an unknown table id, a missing bracketing class and an age cell that is no
  integer all raise a \<^verbatim>\<open>ValueError\<close>; the handler of a table answers the malformed age
  cell with the same 404 response as an unknown id.
\<close>

theorem failure_modes_share_ValueError:
  "(get_yield_tables_meta accepts meta_csv data_csv = Inr ms \<and> i \<notin> meta_id ` set ms \<longrightarrow>
      get_yield_table_meta accepts meta_csv data_csv i = Inl (TableNotFound i)
    \<and> get_yield_table accepts meta_csv data_csv i = Inl (TableNotFound i)
    \<and> exc_class_of (TableNotFound i) = ValueError
    \<and> read_yield_table_data accepts meta_csv data_csv i = HTTPException 404 (TableMessage i))
   \<and> (get_yield_table accepts meta_csv data_csv i = Inr t
      \<and> \<not> (has_class t (lower_yield_class target) \<and> has_class t (upper_yield_class target))
      \<longrightarrow>
      (\<exists>c. get_interpolated_yield_table accepts meta_csv data_csv i target = Inl (ClassNotFound c i)
          \<and> exc_class_of (ClassNotFound c i) = ValueError)
    \<and> read_interpolated_yield_table_data accepts meta_csv data_csv i target
         = HTTPException 404 (ClassMessage target))
   \<and> ((\<exists>m. get_yield_table_meta accepts meta_csv data_csv i = Inr m)
      \<and> (\<forall>r \<in> set data_csv. py_int (col_id r) \<noteq> None)
      \<and> filter (\<lambda>r. py_int (col_id r) = Some i) data_csv = pre @ row # post
      \<and> (\<forall>r \<in> set pre. (\<exists>k. parse_yield_class (col_yield_class r) = Inr k)
                        \<and> (\<exists>y. make_row r = Inr y))
      \<and> (\<exists>k. parse_yield_class (col_yield_class row) = Inr k)
      \<and> col_age row = Some s \<and> py_int s = None
      \<longrightarrow>
      get_yield_table accepts meta_csv data_csv i = Inl (InvalidLiteral s)
    \<and> exc_class_of (InvalidLiteral s) = ValueError
    \<and> read_yield_table_data accepts meta_csv data_csv i = HTTPException 404 (TableMessage i))"
proof (intro conjI impI)
  assume h: "get_yield_tables_meta accepts meta_csv data_csv = Inr ms \<and> i \<notin> meta_id ` set ms"
  then show a: "get_yield_table_meta accepts meta_csv data_csv i = Inl (TableNotFound i)"
    by (simp add: get_yield_table_meta_def find_meta_absent)
  then show b: "get_yield_table accepts meta_csv data_csv i = Inl (TableNotFound i)"
    by (simp add: get_yield_table_def)
  then show "read_yield_table_data accepts meta_csv data_csv i = HTTPException 404 (TableMessage i)"
    by (simp add: read_yield_table_data_def)
  show "exc_class_of (TableNotFound i) = ValueError"
    by simp
next
  assume h: "get_yield_table accepts meta_csv data_csv i = Inr t
      \<and> \<not> (has_class t (lower_yield_class target) \<and> has_class t (upper_yield_class target))"
  then have t: "get_yield_table accepts meta_csv data_csv i = Inr t" by simp
  from h interpolated_missing [OF t, of target]
  have "\<exists>c. get_interpolated_yield_table accepts meta_csv data_csv i target
                  = Inl (ClassNotFound c i)"
    by (auto simp: upper_yield_class_def)
  then obtain c where
    c: "get_interpolated_yield_table accepts meta_csv data_csv i target = Inl (ClassNotFound c i)" ..
  then show "\<exists>c. get_interpolated_yield_table accepts meta_csv data_csv i target = Inl (ClassNotFound c i)
          \<and> exc_class_of (ClassNotFound c i) = ValueError"
    by simp
  from c show "read_interpolated_yield_table_data accepts meta_csv data_csv i target
         = HTTPException 404 (ClassMessage target)"
    by (simp add: read_interpolated_yield_table_data_def)
next
  assume h: "(\<exists>m. get_yield_table_meta accepts meta_csv data_csv i = Inr m)
      \<and> (\<forall>r \<in> set data_csv. py_int (col_id r) \<noteq> None)
      \<and> filter (\<lambda>r. py_int (col_id r) = Some i) data_csv = pre @ row # post
      \<and> (\<forall>r \<in> set pre. (\<exists>k. parse_yield_class (col_yield_class r) = Inr k)
                        \<and> (\<exists>y. make_row r = Inr y))
      \<and> (\<exists>k. parse_yield_class (col_yield_class row) = Inr k)
      \<and> col_age row = Some s \<and> py_int s = None"
  then obtain m k where "get_yield_table_meta accepts meta_csv data_csv i = Inr m"
    "parse_yield_class (col_yield_class row) = Inr k"
    by blast
  with h show a: "get_yield_table accepts meta_csv data_csv i = Inl (InvalidLiteral s)"
    by (intro get_yield_table_bad_age [of accepts meta_csv data_csv i m pre row post k s]) simp_all
  then show "read_yield_table_data accepts meta_csv data_csv i = HTTPException 404 (TableMessage i)"
    by (simp add: read_yield_table_data_def)
  show "exc_class_of (InvalidLiteral s) = ValueError"
    by simp
qed

text \<open>The id 999, the target 7 (there is no class 8), and the data file with the age
  \<^verbatim>\<open>abc\<close>.\<close>

theorem failure_modes_share_ValueError_witness:
  "get_yield_table example_accepts example_meta_csv example_data_csv 999 = Inl (TableNotFound 999)
   \<and> read_yield_table_data example_accepts example_meta_csv example_data_csv 999
        = HTTPException 404 (TableMessage 999)
   \<and> (\<exists>c. get_interpolated_yield_table example_accepts example_meta_csv example_data_csv 1 7
             = Inl (ClassNotFound c 1))
   \<and> read_interpolated_yield_table_data example_accepts example_meta_csv example_data_csv 1 7
        = HTTPException 404 (ClassMessage 7)
   \<and> get_yield_table example_accepts example_meta_csv example_bad_data_csv 1 = Inl (InvalidLiteral ''abc'')
   \<and> read_yield_table_data example_accepts example_meta_csv example_bad_data_csv 1
        = HTTPException 404 (TableMessage 1)"
proof -
  have up: "\<not> (has_class example_table (lower_yield_class 7)
               \<and> has_class example_table (upper_yield_class 7))"
    using lower_yield_class_of_int [of 7] example_has_no_class_8
    by (simp add: upper_yield_class_def)
  from failure_modes_share_ValueError
         [of example_accepts example_meta_csv example_data_csv example_meta_list 999]
       example_list_meta example_no_999
  have a: "get_yield_table example_accepts example_meta_csv example_data_csv 999 = Inl (TableNotFound 999)"
          "read_yield_table_data example_accepts example_meta_csv example_data_csv 999
             = HTTPException 404 (TableMessage 999)"
    by blast+
  from failure_modes_share_ValueError
         [of example_accepts example_meta_csv example_data_csv _ 1 example_table 7]
       example_table_loaded up
  have b: "\<exists>c. get_interpolated_yield_table example_accepts example_meta_csv example_data_csv 1 7
                 = Inl (ClassNotFound c 1)"
          "read_interpolated_yield_table_data example_accepts example_meta_csv example_data_csv 1 7
             = HTTPException 404 (ClassMessage 7)"
    by blast+
  from failure_modes_share_ValueError
         [of example_accepts example_meta_csv example_bad_data_csv _ 1 _ _
             "[example_data_row ''1'' ''6'' ''10'' ''5.0'' []]"
             "example_data_row ''1'' ''6'' ''abc'' ''8.0'' ''0.4''"
             "[example_data_row ''1'' ''7'' ''10'' ''6.0'' []]" "''abc''"]
       example_bad_meta_found example_bad_ids example_bad_kept example_bad_pre
       example_bad_key example_bad_age example_py_int(3)
  have c: "get_yield_table example_accepts example_meta_csv example_bad_data_csv 1 = Inl (InvalidLiteral ''abc'')"
          "read_yield_table_data example_accepts example_meta_csv example_bad_data_csv 1
             = HTTPException 404 (TableMessage 1)"
    by blast+
  from a b c show ?thesis by blast
qed

end
